theory Spec2Isabelle
  imports Complex_Main "HOL-Library.Word"
begin

section \<open>JavaScript values\<close>

text \<open>
  The middleware is JavaScript. A number is an IEEE double: the model keeps the three
  special values apart and embeds every finite double into the rationals. The code under
  study only compares numbers, tests them for zero and for being integral, so nothing is
  lost by the embedding (negative zero behaves as zero in all of these).
\<close>

datatype jsnum = NaN | NegInf | Fin rat | PosInf

text \<open>
  A request body is what \<^verbatim>\<open>JSON.parse\<close> returns; \<open>JUndefined\<close> is the value of an
  absent property. Strings are sequences of 8-bit code units.
\<close>

datatype json =
    JUndefined
  | JNull
  | JBool bool
  | JNum jsnum
  | JStr string
  | JArr "json list"
  | JObj "(string \<times> json) list"

type_synonym byte = "8 word"

text \<open>
  Thrown values. \<open>Msg m\<close> is \<^verbatim>\<open>new Error(m)\<close> with a fixed text; the constructors
  with arguments are the errors whose text interpolates a value.
\<close>

datatype error =
    SyntaxError
  | TypeError
  | Msg string
  | PayloadNotHex
  | PayloadWrongLength nat
  | NodeNotFound jsnum
  | NodeNotReady jsnum
  | NoManufacturerProprietaryCC jsnum
  | EntryNotFoundForDSK json
  | UnknownMessageType json

subsection \<open>Truthiness, \<^verbatim>\<open>Number.isInteger\<close>, \<^verbatim>\<open>Number(...)\<close>\<close>

fun num_truthy :: "jsnum \<Rightarrow> bool" where
  "num_truthy NaN = False"
| "num_truthy (Fin r) = (r \<noteq> 0)"
| "num_truthy NegInf = True"
| "num_truthy PosInf = True"

fun truthy :: "json \<Rightarrow> bool" where
  "truthy JUndefined = False"
| "truthy JNull = False"
| "truthy (JBool b) = b"
| "truthy (JNum n) = num_truthy n"
| "truthy (JStr s) = (s \<noteq> [])"
| "truthy (JArr xs) = True"
| "truthy (JObj kvs) = True"

fun isInteger :: "json \<Rightarrow> bool" where
  "isInteger (JNum (Fin r)) = (of_int \<lfloor>r\<rfloor> = r)"
| "isInteger _ = False"

text \<open>
  Converting a value to a string or to a number first makes it a primitive. A parsed
  object has no function among its own properties, so an own property \<^verbatim>\<open>toString\<close>
  hides the inherited method and the conversion throws a \<^verbatim>\<open>TypeError\<close> (an own
  \<^verbatim>\<open>valueOf\<close> is skipped, the inherited one returns the object itself). An array
  joins the strings of its elements, \<^verbatim>\<open>null\<close> counting as the empty string, and throws
  when one of them does. Every other value converts.
\<close>

fun toString_throws :: "json \<Rightarrow> bool" where
  "toString_throws (JObj kvs) = (''toString'' \<in> set (map fst kvs))"
| "toString_throws (JArr xs) = list_ex toString_throws xs"
| "toString_throws _ = False"

text \<open>
  The conversion of a string to a number, the text of an array and \<^verbatim>\<open>parseInt\<close> round
  to doubles; they belong to the language runtime and are parameters of the model, used
  on the values whose conversion to a string does not throw.
\<close>

record runtime =
  str_to_num :: "string \<Rightarrow> jsnum"
  arr_to_str :: "json list \<Rightarrow> string"
  parseInt16 :: "json \<Rightarrow> jsnum"
  parseInt10 :: "json \<Rightarrow> jsnum"

text \<open>\<^verbatim>\<open>Number(v)\<close>; an object that converts has the text \<^verbatim>\<open>[object Object]\<close>.\<close>

fun Number :: "'a runtime_scheme \<Rightarrow> json \<Rightarrow> error + jsnum" where
  "Number rt JUndefined = Inr NaN"
| "Number rt JNull = Inr (Fin 0)"
| "Number rt (JBool b) = Inr (if b then Fin 1 else Fin 0)"
| "Number rt (JNum n) = Inr n"
| "Number rt (JStr s) = Inr (str_to_num rt s)"
| "Number rt (JArr xs) =
     (if toString_throws (JArr xs) then Inl TypeError else Inr (str_to_num rt (arr_to_str rt xs)))"
| "Number rt (JObj kvs) = (if toString_throws (JObj kvs) then Inl TypeError else Inr NaN)"

text \<open>\<^verbatim>\<open>parseInt(v, radix)\<close> converts \<open>v\<close> to a string first.\<close>

definition js_parseInt :: "(json \<Rightarrow> jsnum) \<Rightarrow> json \<Rightarrow> error + jsnum" where
  "js_parseInt parse v = (if toString_throws v then Inl TypeError else Inr (parse v))"

text \<open>Property access \<^verbatim>\<open>v.k\<close>: a \<^verbatim>\<open>TypeError\<close> on \<^verbatim>\<open>null\<close> and \<^verbatim>\<open>undefined\<close>.\<close>

fun getprop :: "json \<Rightarrow> string \<Rightarrow> error + json" where
  "getprop JUndefined k = Inl TypeError"
| "getprop JNull k = Inl TypeError"
| "getprop (JObj kvs) k = Inr (case map_of kvs k of None \<Rightarrow> JUndefined | Some v \<Rightarrow> v)"
| "getprop _ k = Inr JUndefined"

text \<open>The same on a value known not to be \<^verbatim>\<open>null\<close> or \<^verbatim>\<open>undefined\<close>.\<close>

fun getfield :: "json \<Rightarrow> string \<Rightarrow> json" where
  "getfield (JObj kvs) k = (case map_of kvs k of None \<Rightarrow> JUndefined | Some v \<Rightarrow> v)"
| "getfield _ k = JUndefined"

section \<open>Vendor payload validation (manufacturer-proprietary.js)\<close>

text \<open>The class \<^verbatim>\<open>\s\<close> of a regular expression, on 8-bit code units.\<close>

definition is_space :: "char \<Rightarrow> bool" where
  "is_space c = (of_char c \<in> {9, 10, 11, 12, 13, 32, 160 :: nat})"

definition unhex :: "char \<Rightarrow> nat option" where
  "unhex c =
     (let n = (of_char c :: nat) in
      if 48 \<le> n \<and> n \<le> 57 then Some (n - 48)
      else if 97 \<le> n \<and> n \<le> 102 then Some (n - 87)
      else if 65 \<le> n \<and> n \<le> 70 then Some (n - 55)
      else None)"

definition is_hex :: "char \<Rightarrow> bool" where
  "is_hex c = (unhex c \<noteq> None)"

text \<open>
  \<^verbatim>\<open>Buffer.from(s, "hex")\<close>: two characters a byte, stopping at the first pair that is
  not hexadecimal; a single trailing character is dropped.
\<close>

fun hexDecode :: "string \<Rightarrow> byte list" where
  "hexDecode (a # b # rest) =
     (case (unhex a, unhex b) of
        (Some x, Some y) \<Rightarrow> of_nat (16 * x + y) # hexDecode rest
      | _ \<Rightarrow> [])"
| "hexDecode _ = []"

definition hexTo32ByteBuffer :: "string \<Rightarrow> error + byte list" where
  "hexTo32ByteBuffer payloadHex =
     (let normalized = filter (\<lambda>c. \<not> is_space c) payloadHex in
      if \<not> (normalized \<noteq> [] \<and> list_all is_hex normalized) then Inl PayloadNotHex
      else
        let buf = hexDecode normalized in
        if length buf \<noteq> 32 then Inl (PayloadWrongLength (length buf)) else Inr buf)"

section \<open>The provisioning client (zwave-client.js)\<close>

subsection \<open>Operators of the language\<close>

text \<open>
  \<^verbatim>\<open>a === b\<close> between values that do not share a reference: two parsed objects or
  arrays are never identical, and \<^verbatim>\<open>NaN\<close> differs from itself.
\<close>

fun strict_eq :: "json \<Rightarrow> json \<Rightarrow> bool" where
  "strict_eq JUndefined JUndefined = True"
| "strict_eq JNull JNull = True"
| "strict_eq (JBool a) (JBool b) = (a = b)"
| "strict_eq (JNum a) (JNum b) = (a = b \<and> a \<noteq> NaN)"
| "strict_eq (JStr a) (JStr b) = (a = b)"
| "strict_eq _ _ = False"

text \<open>\<^verbatim>\<open>a || b\<close>\<close>

definition js_or :: "json \<Rightarrow> json \<Rightarrow> json" where
  "js_or a b = (if truthy a then a else b)"

text \<open>\<^verbatim>\<open>v === true || v === "true"\<close>\<close>

definition asserted :: "json \<Rightarrow> bool" where
  "asserted v = (strict_eq v (JBool True) \<or> strict_eq v (JStr ''true''))"

text \<open>\<^verbatim>\<open>xs.includes(n)\<close> for a number \<open>n\<close> that is not \<^verbatim>\<open>NaN\<close>\<close>

definition arr_includes :: "json list \<Rightarrow> rat \<Rightarrow> bool" where
  "arr_includes xs n = list_ex (\<lambda>x. x = JNum (Fin n)) xs"

subsection \<open>Enumerations of the driver library\<close>

text \<open>
  \<^verbatim>\<open>ProvisioningEntryStatus\<close> (Active = 0, Inactive = 1, as ZWaveController.js spells
  out) and \<^verbatim>\<open>Protocols\<close> (ZWave = 0, ZWaveLongRange = 1) are numeric enumerations
  of the external driver library.
\<close>

definition Active :: json where "Active = JNum (Fin 0)"
definition Inactive :: json where "Inactive = JNum (Fin 1)"
definition ZWave :: json where "ZWave = JNum (Fin 0)"
definition ZWaveLongRange :: json where "ZWaveLongRange = JNum (Fin 1)"

subsection \<open>Devices and provisioning entries\<close>

datatype node_status = Unknown | Asleep | Awake | Dead | Alive

text \<open>
  What the middleware reads of a device of the driver: \<open>node_canAddCC\<close> says that
  \<^verbatim>\<open>node.addCC\<close> is a function, \<open>node_supportedCCs\<close> are the command classes the
  device is taken to support.
\<close>

record znode =
  node_id :: nat
  node_name :: string
  node_status :: node_status
  node_ready :: bool
  node_deviceConfig :: "(json \<times> json \<times> json) option"
  node_canAddCC :: bool
  node_supportedCCs :: "nat list"

text \<open>
  A provisioning entry is one JavaScript object from the request handler to the store:
  the client overwrites \<open>dsk\<close>, \<open>status\<close>, \<open>protocol\<close> and \<open>securityClasses\<close> in
  place, so these fields hold request values before and store values after.
\<close>

record entry =
  dsk :: json
  name :: json
  location :: json
  protocol :: json
  status :: json
  securityClasses :: json
  s2AccessControl :: json
  s2Authenticated :: json
  s2Unauthenticated :: json
  s0Legacy :: json
  supportedProtocols :: json
  manufacturerId :: json
  productType :: json
  productId :: json
  applicationVersion :: json
  nodeId :: json

text \<open>One frame handed to the radio: target device, vendor id, payload.\<close>

type_synonym frame = "nat \<times> jsnum \<times> byte list"

record zclient =
  port :: json
  driver :: bool
  driverReady :: bool
  destroyed :: bool
  nodes :: "znode list"
  provisioningList :: "entry list"
  sent :: "frame list"

text \<open>
  Modelled from the spec: the provisioning store of the external driver, which the
  repository only calls (\<^verbatim>\<open>driver.controller.getProvisioningEntry\<close>,
  \<^verbatim>\<open>provisionSmartStartNode\<close>, \<^verbatim>\<open>unprovisionSmartStartNode\<close>): get, insert-or-update
  and delete keyed by DSK, delete also by device id.
\<close>

definition ctrl_getProvisioningEntry :: "entry list \<Rightarrow> json \<Rightarrow> entry option" where
  "ctrl_getProvisioningEntry es k = find (\<lambda>e. strict_eq (dsk e) k) es"

fun ctrl_provisionSmartStartNode :: "entry list \<Rightarrow> entry \<Rightarrow> entry list" where
  "ctrl_provisionSmartStartNode [] e = [e]"
| "ctrl_provisionSmartStartNode (x # xs) e =
     (if strict_eq (dsk x) (dsk e) then e # xs else x # ctrl_provisionSmartStartNode xs e)"

definition ctrl_unprovisionSmartStartNode :: "entry list \<Rightarrow> json \<Rightarrow> entry list" where
  "ctrl_unprovisionSmartStartNode es k =
     filter (\<lambda>e. \<not> strict_eq (dsk e) k \<and> \<not> strict_eq (nodeId e) k) es"

text \<open>\<^verbatim>\<open>driver.controller.nodes.get(n)\<close>: the devices are keyed by their numeric id.\<close>

fun nodes_get :: "znode list \<Rightarrow> jsnum \<Rightarrow> znode option" where
  "nodes_get ns (Fin r) = find (\<lambda>n. of_nat (node_id n) = r) ns"
| "nodes_get ns _ = None"

subsection \<open>DSK normalisation\<close>

definition toUpperCase :: "string \<Rightarrow> string" where
  "toUpperCase s =
     map (\<lambda>c. let n = (of_char c :: nat) in
               if 97 \<le> n \<and> n \<le> 122 then char_of (n - 32) else c) s"

definition is_digit :: "char \<Rightarrow> bool" where
  "is_digit c = (let n = (of_char c :: nat) in 48 \<le> n \<and> n \<le> 57)"

definition is_upper_hex :: "char \<Rightarrow> bool" where
  "is_upper_hex c = (let n = (of_char c :: nat) in (48 \<le> n \<and> n \<le> 57) \<or> (65 \<le> n \<and> n \<le> 70))"

text \<open>\<^verbatim>\<open>s.match(/.{1,5}/g).join("-")\<close> on a string without line breaks\<close>

fun group5 :: "string \<Rightarrow> string" where
  "group5 (a # b # c # d # e # f # rest) = a # b # c # d # e # CHR ''-'' # group5 (f # rest)"
| "group5 s = s"

text \<open>
  Only the letters a to z are mapped by \<open>toUpperCase\<close> here. The other 8-bit letters
  never become a digit or a letter A to F, so the tests below, and with them the result,
  are those of the source.
\<close>

definition normalizeDSK :: "json \<Rightarrow> json" where
  "normalizeDSK d =
     (case d of
        JStr s \<Rightarrow>
          if s = [] then d
          else
            let cleaned = toUpperCase (filter (\<lambda>c. \<not> (c = CHR ''-'' \<or> is_space c)) s) in
            if length cleaned = 40 \<and> list_all is_digit cleaned then JStr (group5 cleaned)
            else if length cleaned = 32 \<and> list_all is_upper_hex cleaned then JStr (group5 cleaned)
            else if length cleaned = 40 \<and> list_all is_upper_hex cleaned then
              let extracted = take 32 cleaned in
              if length extracted = 32 \<and> list_all is_upper_hex extracted
              then JStr (group5 extracted)
              else
                let extractedLast = drop (length cleaned - 32) cleaned in
                if length extractedLast = 32 \<and> list_all is_upper_hex extractedLast
                then JStr (group5 extractedLast)
                else d
            else d
      | _ \<Rightarrow> d)"

subsection \<open>Adding, updating and removing provisioning entries\<close>

text \<open>
  \<^verbatim>\<open>entry.supportedProtocols?.includes(Protocols.ZWaveLongRange)\<close>: an array is searched
  for the number, a string for the text "1", and any other value that is not
  \<^verbatim>\<open>null\<close> or \<^verbatim>\<open>undefined\<close> has no method \<^verbatim>\<open>includes\<close>.
\<close>

fun includesLongRange :: "json \<Rightarrow> error + bool" where
  "includesLongRange JUndefined = Inr False"
| "includesLongRange JNull = Inr False"
| "includesLongRange (JArr xs) = Inr (arr_includes xs 1)"
| "includesLongRange (JStr s) = Inr (CHR ''1'' \<in> set s)"
| "includesLongRange _ = Inl TypeError"

definition push_new :: "rat \<Rightarrow> json list \<Rightarrow> json list" where
  "push_new c xs = (if arr_includes xs c then xs else xs @ [JNum (Fin c)])"

definition valid_class :: "json \<Rightarrow> bool" where
  "valid_class x = (x \<in> {JNum (Fin 0), JNum (Fin 1), JNum (Fin 2), JNum (Fin 7)})"

text \<open>The security classes of an entry, from its \<open>securityClasses\<close> property first.\<close>

definition from_securityClasses :: "json \<Rightarrow> json list" where
  "from_securityClasses sc =
     (if truthy sc then
        (case sc of
           JArr xs \<Rightarrow> filter valid_class xs
         | JObj kvs \<Rightarrow>
             (if asserted (getfield sc ''s2AccessControl'') then [JNum (Fin 2)] else []) @
             (if asserted (getfield sc ''s2Authenticated'') then [JNum (Fin 1)] else []) @
             (if asserted (getfield sc ''s2Unauthenticated'') then [JNum (Fin 0)] else []) @
             (if asserted (getfield sc ''s0Legacy'') then [JNum (Fin 7)] else [])
         | _ \<Rightarrow> [])
      else [])"

definition securityClassesArray :: "entry \<Rightarrow> json list" where
  "securityClassesArray e =
     (let a0 = from_securityClasses (securityClasses e);
          a1 = (if asserted (s2AccessControl e) then push_new 2 a0 else a0);
          a2 = (if asserted (s2Authenticated e) then push_new 1 a1 else a1);
          a3 = (if asserted (s2Unauthenticated e) then push_new 0 a2 else a2);
          a4 = (if asserted (s0Legacy e) then push_new 7 a3 else a3)
      in a4)"

definition convertProtocol :: "json \<Rightarrow> json" where
  "convertProtocol p =
     (case p of
        JStr s \<Rightarrow> if s = ''ZWaveLongRange'' \<or> s = ''Z-Wave Long Range'' then ZWaveLongRange else ZWave
      | _ \<Rightarrow> if \<not> truthy p then ZWave else p)"

text \<open>
  The function writes the DSK into a line of its log, \<^verbatim>\<open>`... with DSK: ${entry.dsk}`\<close>,
  before it looks the entry up: a DSK whose conversion to a string throws ends the call
  there. Its other interpolations are of numbers: the length of a list and the status
  of an entry of the store, a value of the driver's enumeration.
\<close>

definition provisionSmartStartNode :: "zclient \<Rightarrow> entry \<Rightarrow> (error + entry) \<times> zclient" where
  "provisionSmartStartNode c e0 =
     (if \<not> driverReady c then (Inl (Msg ''Driver not ready''), c)
      else if \<not> truthy (dsk e0) then (Inl (Msg ''DSK is required''), c)
      else
        let e1 = e0\<lparr>dsk := normalizeDSK (dsk e0)\<rparr> in
        if toString_throws (dsk e1) then (Inl TypeError, c)
        else
        let existing = ctrl_getProvisioningEntry (provisioningList c) (dsk e1);
            isNew = (existing = None)
        in
        case (if isNew then includesLongRange (supportedProtocols e1) else Inr False) of
          Inl err \<Rightarrow> (Inl err, c)
        | Inr longRange \<Rightarrow>
            let e2 = e1\<lparr>status :=
                       (if isNew \<and> longRange then Inactive
                        else if strict_eq (status e1) (JBool True) \<or> strict_eq (status e1) (JStr ''active'')
                        then Active else Inactive)\<rparr>;
                e3 = e2\<lparr>protocol := convertProtocol (protocol e2)\<rparr>;
                e4 = e3\<lparr>securityClasses := JArr (securityClassesArray e3)\<rparr>
            in (Inr e4, c\<lparr>provisioningList := ctrl_provisionSmartStartNode (provisioningList c) e4\<rparr>))"

definition updateProvisioningEntryStatus :: "zclient \<Rightarrow> json \<Rightarrow> bool \<Rightarrow> (error + entry) \<times> zclient" where
  "updateProvisioningEntryStatus c d active =
     (if \<not> driverReady c then (Inl (Msg ''Driver not ready''), c)
      else
        let normalizedDSK = normalizeDSK d in
        if toString_throws normalizedDSK then (Inl TypeError, c)
        else
        case ctrl_getProvisioningEntry (provisioningList c) normalizedDSK of
          None \<Rightarrow> (Inl (EntryNotFoundForDSK normalizedDSK), c)
        | Some e \<Rightarrow>
            let e' = e\<lparr>status := (if active then Active else Inactive)\<rparr>
            in (Inr e', c\<lparr>provisioningList := ctrl_provisionSmartStartNode (provisioningList c) e'\<rparr>))"

definition unprovisionSmartStartNode :: "zclient \<Rightarrow> json \<Rightarrow> (error + unit) \<times> zclient" where
  "unprovisionSmartStartNode c dskOrNodeId =
     (if \<not> driverReady c then (Inl (Msg ''Driver not ready''), c)
      else
        let normalized = (case dskOrNodeId of JStr s \<Rightarrow> normalizeDSK dskOrNodeId | _ \<Rightarrow> dskOrNodeId)
        in
        if toString_throws normalized then (Inl TypeError, c)
        else (Inr (), c\<lparr>provisioningList := ctrl_unprovisionSmartStartNode (provisioningList c) normalized\<rparr>))"

subsection \<open>Listing entries and devices\<close>

text \<open>Assignment \<^verbatim>\<open>o[k] = v\<close> on an object.\<close>

fun set_prop :: "(string \<times> json) list \<Rightarrow> string \<Rightarrow> json \<Rightarrow> (string \<times> json) list" where
  "set_prop [] k v = [(k, v)]"
| "set_prop ((k', v') # kvs) k v = (if k' = k then (k, v) # kvs else (k', v') # set_prop kvs k v)"

definition class_flag :: "(string \<times> json) list \<Rightarrow> json \<Rightarrow> (string \<times> json) list" where
  "class_flag obj sc =
     (if strict_eq sc (JNum (Fin 0)) then set_prop obj ''s2Unauthenticated'' (JBool True)
      else if strict_eq sc (JNum (Fin 1)) then set_prop obj ''s2Authenticated'' (JBool True)
      else if strict_eq sc (JNum (Fin 2)) then set_prop obj ''s2AccessControl'' (JBool True)
      else if strict_eq sc (JNum (Fin 7)) then set_prop obj ''s0Legacy'' (JBool True)
      else obj)"

definition securityClassesObj :: "json \<Rightarrow> json" where
  "securityClassesObj sc =
     (case sc of
        JArr xs \<Rightarrow> JObj (foldl class_flag [] xs)
      | JObj kvs \<Rightarrow> sc
      | _ \<Rightarrow> JObj [])"

record deviceInfo =
  di_id :: nat
  di_name :: string
  di_status :: node_status
  di_deviceConfig :: "(json \<times> json \<times> json) option"

record entry_info = entry +
  deviceInfo :: "deviceInfo option"

definition entry_view :: "zclient \<Rightarrow> entry \<Rightarrow> entry_info" where
  "entry_view c e =
     (let node = (if truthy (nodeId e)
                  then (case nodeId e of JNum n \<Rightarrow> nodes_get (nodes c) n | _ \<Rightarrow> None)
                  else None)
      in \<lparr>dsk = dsk e,
          name = js_or (name e) (JStr []),
          location = js_or (location e) (JStr []),
          protocol =
            (if strict_eq (protocol e) ZWaveLongRange then JStr ''ZWaveLongRange''
             else if strict_eq (protocol e) ZWave then JStr ''ZWave''
             else js_or (protocol e) (JStr ''ZWave'')),
          status = JBool (strict_eq (status e) Active),
          securityClasses = securityClassesObj (securityClasses e),
          s2AccessControl = JUndefined,
          s2Authenticated = JUndefined,
          s2Unauthenticated = JUndefined,
          s0Legacy = JUndefined,
          supportedProtocols = js_or (supportedProtocols e) (JArr []),
          manufacturerId = manufacturerId e,
          productType = productType e,
          productId = productId e,
          applicationVersion = applicationVersion e,
          nodeId = js_or (nodeId e) JNull,
          deviceInfo =
            map_option (\<lambda>n. \<lparr>di_id = node_id n, di_name = node_name n,
                               di_status = node_status n,
                               di_deviceConfig = node_deviceConfig n\<rparr>) node\<rparr>)"

definition getProvisioningEntries :: "zclient \<Rightarrow> error + entry_info list" where
  "getProvisioningEntries c =
     (if \<not> driverReady c then Inl (Msg ''Driver not ready'')
      else Inr (map (entry_view c) (provisioningList c)))"

text \<open>\<^verbatim>\<open>node.name || `Node ${node.id}`\<close>\<close>

datatype node_label = Named string | Unnamed nat

record node_info =
  ni_id :: nat
  ni_name :: node_label
  ni_status :: node_status
  ni_deviceConfig :: "(json \<times> json \<times> json) option"

definition node_view :: "znode \<Rightarrow> node_info" where
  "node_view n =
     \<lparr>ni_id = node_id n,
      ni_name = (if node_name n \<noteq> [] then Named (node_name n) else Unnamed (node_id n)),
      ni_status = node_status n,
      ni_deviceConfig = node_deviceConfig n\<rparr>"

definition getNodes :: "zclient \<Rightarrow> node_info list" where
  "getNodes c = (if \<not> driverReady c \<or> \<not> driver c then [] else map node_view (nodes c))"

definition getNode :: "zclient \<Rightarrow> jsnum \<Rightarrow> node_info option" where
  "getNode c n =
     (if \<not> driverReady c \<or> \<not> driver c then None
      else map_option node_view (nodes_get (nodes c) n))"

section \<open>Sending the vendor command (manufacturer-proprietary.js)\<close>

text \<open>
  What the device and the driver answer is not the middleware's to decide: the outcome
  of \<^verbatim>\<open>sendData\<close> (given the frames sent before and the frame itself), of waiting for
  the driver and of starting it are parameters, next to the runtime's conversions.
\<close>

datatype start_outcome =
    ConfigFailed error
  | StartFailed error
  | Started "znode list" "entry list"

record env = runtime +
  sendData :: "frame list \<Rightarrow> frame \<Rightarrow> error + json"
  waitForDriverReady :: "error option"
  driver_start :: "json \<Rightarrow> start_outcome"

text \<open>\<^verbatim>\<open>_forceManufacturerProprietarySupport\<close>: register class 0x91 unless present.\<close>

definition forceManufacturerProprietarySupport :: "znode \<Rightarrow> znode" where
  "forceManufacturerProprietarySupport n =
     (if \<not> node_canAddCC n then n
      else if 0x91 \<in> set (node_supportedCCs n) then n
      else n\<lparr>node_supportedCCs := node_supportedCCs n @ [0x91]\<rparr>)"

text \<open>
  \<^verbatim>\<open>node.commandClasses["Manufacturer Proprietary"]\<close>: the vendor class API of a
  device is there when the device is taken to support the class.
\<close>

definition has_ccMP :: "znode \<Rightarrow> bool" where
  "has_ccMP n = (0x91 \<in> set (node_supportedCCs n))"

text \<open>What the handler of the driver's ready event does to the client.\<close>

definition on_driver_ready :: "zclient \<Rightarrow> zclient" where
  "on_driver_ready c =
     c\<lparr>driverReady := True, nodes := map forceManufacturerProprietarySupport (nodes c)\<rparr>"

fun num_le :: "jsnum \<Rightarrow> rat \<Rightarrow> bool" where
  "num_le (Fin r) k = (r \<le> k)"
| "num_le NegInf k = True"
| "num_le _ k = False"

fun num_gt :: "jsnum \<Rightarrow> rat \<Rightarrow> bool" where
  "num_gt (Fin r) k = (r > k)"
| "num_gt PosInf k = True"
| "num_gt _ k = False"

text \<open>Step 8 of the sender, and the same two statements of \<^verbatim>\<open>ZWaveLock.sendCustom\<close>.\<close>

definition clamp_count :: "jsnum \<Rightarrow> jsnum" where
  "clamp_count count =
     (let c1 = (if num_le count 0 then Fin 1 else count);
          c2 = (if num_gt c1 100 then Fin 100 else c1)
      in c2)"

text \<open>
  The loop \<^verbatim>\<open>for (let i = 0; i < count; i++)\<close> around \<^verbatim>\<open>await ccMP.sendData(...)\<close>. Every
  call of \<^verbatim>\<open>sendData\<close> is recorded in the log of frames; a failure is rethrown at once.
  Durations are wall-clock time and are left out of the results.
\<close>

function send_loop ::
  "env \<Rightarrow> frame \<Rightarrow> rat \<Rightarrow> nat \<Rightarrow> (nat \<times> json) list \<Rightarrow> frame list
     \<Rightarrow> (error + (nat \<times> json) list) \<times> frame list" where
  "send_loop ev fr count i results hist =
     (if of_nat i < count then
        (case sendData ev hist fr of
           Inl err \<Rightarrow> (Inl err, hist @ [fr])
         | Inr result \<Rightarrow> send_loop ev fr count (Suc i) (results @ [(i + 1, result)]) (hist @ [fr]))
      else (Inr results, hist))"
  by pat_completeness auto
termination
  by (relation "measure (\<lambda>(ev, fr, count, i, results, hist). nat \<lceil>count\<rceil> - i)") (auto, linarith)

text \<open>
  A count that is \<^verbatim>\<open>NaN\<close> fails the loop test at once. The count is clamped before
  the loop, so it is never infinite there.
\<close>

definition send_frames ::
  "env \<Rightarrow> frame \<Rightarrow> jsnum \<Rightarrow> frame list \<Rightarrow> (error + (nat \<times> json) list) \<times> frame list" where
  "send_frames ev fr count hist =
     (case count of Fin r \<Rightarrow> send_loop ev fr r 0 [] hist | _ \<Rightarrow> (Inr [], hist))"

definition hex_digit :: "nat \<Rightarrow> char" where
  "hex_digit n = (if n < 10 then char_of (48 + n) else char_of (87 + n))"

text \<open>\<^verbatim>\<open>buf.toString("hex")\<close>\<close>

definition toHex :: "byte list \<Rightarrow> string" where
  "toHex bs = concat (map (\<lambda>b. [hex_digit (unat b div 16), hex_digit (unat b mod 16)]) bs)"

record send_result =
  res_nodeId :: jsnum
  res_count :: jsnum
  res_vendorPayloadHex :: string
  res_manufacturerId :: jsnum
  res_results :: "(nat \<times> json) list"

text \<open>
  \<^verbatim>\<open>sendManufacturerProprietaryCustom({nodeId = 2, vendorPayload, manufacturerId = 0,
  count = 1})\<close>: an argument that is \<^verbatim>\<open>undefined\<close> is \<open>None\<close> and takes its default.
\<close>

definition sendManufacturerProprietaryCustom ::
  "env \<Rightarrow> zclient \<Rightarrow> jsnum option \<Rightarrow> byte list \<Rightarrow> jsnum option \<Rightarrow> jsnum option
     \<Rightarrow> (error + send_result) \<times> zclient" where
  "sendManufacturerProprietaryCustom ev c0 nodeId_arg vendorPayload manufacturerId_arg count_arg =
     (let nid = (case nodeId_arg of None \<Rightarrow> Fin 2 | Some n \<Rightarrow> n);
          mid = (case manufacturerId_arg of None \<Rightarrow> Fin 0 | Some m \<Rightarrow> m);
          count = (case count_arg of None \<Rightarrow> Fin 1 | Some k \<Rightarrow> k)
      in
      if \<not> driver c0 then (Inl (Msg ''Driver not started''), c0)
      else
        case (if driverReady c0 then Inr c0
              else (case waitForDriverReady ev of
                      Some err \<Rightarrow> Inl err
                    | None \<Rightarrow> Inr (on_driver_ready c0))) of
          Inl err \<Rightarrow> (Inl err, c0)
        | Inr c \<Rightarrow>
            if length vendorPayload \<noteq> 32 then (Inl (PayloadWrongLength (length vendorPayload)), c)
            else
              case nodes_get (nodes c) nid of
                None \<Rightarrow> (Inl (NodeNotFound nid), c)
              | Some node \<Rightarrow>
                  if \<not> node_ready node then (Inl (NodeNotReady nid), c)
                  else
                    let node' = forceManufacturerProprietarySupport node;
                        c1 = c\<lparr>nodes := map (\<lambda>n. if node_id n = node_id node then node' else n) (nodes c)\<rparr>
                    in
                    if \<not> has_ccMP node' then (Inl (NoManufacturerProprietaryCC nid), c1)
                    else
                      let count' = clamp_count count in
                      case send_frames ev (node_id node, mid, vendorPayload) count' (sent c1) of
                        (Inl err, hist) \<Rightarrow> (Inl err, c1\<lparr>sent := hist\<rparr>)
                      | (Inr results, hist) \<Rightarrow>
                          (Inr \<lparr>res_nodeId = nid, res_count = count',
                                res_vendorPayloadHex = toHex vendorPayload,
                                res_manufacturerId = mid, res_results = results\<rparr>,
                           c1\<lparr>sent := hist\<rparr>))"

section \<open>The server and the socket plugin (server.js, ZWaveControllerWebsocket.js)\<close>

text \<open>
  The client objects live in a heap: the variable \<^verbatim>\<open>zwaveClient\<close> of server.js and
  the plugin's \<^verbatim>\<open>this.zwaveClient\<close> hold references into it and may share an object.
  The flags say whether the plugin was given \<^verbatim>\<open>initializeDriver\<close> and the two sets of
  security keys.
\<close>

record system =
  heap :: "zclient list"
  srv_zwaveClient :: "nat option"
  srv_currentPort :: json
  ws_zwaveClient :: "nat option"
  ws_currentPort :: json
  ws_initializeDriver :: bool
  ws_securityKeys :: bool
  ws_securityKeysLongRange :: bool

definition deref :: "system \<Rightarrow> nat option \<Rightarrow> zclient option" where
  "deref s r = (case r of None \<Rightarrow> None | Some a \<Rightarrow> if a < length (heap s) then Some (heap s ! a) else None)"

definition store :: "system \<Rightarrow> nat option \<Rightarrow> zclient \<Rightarrow> system" where
  "store s r c = (case r of None \<Rightarrow> s | Some a \<Rightarrow> s\<lparr>heap := (heap s)[a := c]\<rparr>)"

text \<open>\<^verbatim>\<open>this.zwaveClient && this.zwaveClient.driverReady\<close>\<close>

definition ws_ready :: "system \<Rightarrow> bool" where
  "ws_ready s = (case deref s (ws_zwaveClient s) of None \<Rightarrow> False | Some c \<Rightarrow> driverReady c)"

text \<open>\<^verbatim>\<open>new ZWaveProvisioningClient(port, ...)\<close>\<close>

definition new_client :: "json \<Rightarrow> zclient" where
  "new_client p =
     \<lparr>port = p, driver = False, driverReady = False, destroyed = False,
      nodes = [], provisioningList = [], sent = []\<rparr>"

text \<open>\<^verbatim>\<open>ZWaveProvisioningClient.close\<close>\<close>

definition close :: "zclient \<Rightarrow> zclient" where
  "close c = (if driver c then c\<lparr>destroyed := True, driverReady := False\<rparr> else c)"

text \<open>
  \<^verbatim>\<open>ZWaveProvisioningClient.connect\<close>: its first statement writes the port into a line
  of the log, \<^verbatim>\<open>`Connecting to Z-Wave controller on ${this.port}...`\<close>. The driver object
  exists once the device configuration is in place, whether or not its start succeeds.
\<close>

definition connect :: "env \<Rightarrow> zclient \<Rightarrow> (error + unit) \<times> zclient" where
  "connect ev c =
     (if toString_throws (port c) then (Inl TypeError, c)
      else
        case driver_start ev (port c) of
          ConfigFailed err \<Rightarrow> (Inl err, c)
        | StartFailed err \<Rightarrow> (Inl err, c\<lparr>driver := True\<rparr>)
        | Started ns es \<Rightarrow> (Inr (), c\<lparr>driver := True, nodes := ns, provisioningList := es\<rparr>))"

text \<open>The driver's ready event on the client at a reference.\<close>

definition driver_ready_event :: "nat \<Rightarrow> system \<Rightarrow> system" where
  "driver_ready_event a s =
     (case deref s (Some a) of None \<Rightarrow> s | Some c \<Rightarrow> store s (Some a) (on_driver_ready c))"

text \<open>\<^verbatim>\<open>initializeDriver(port)\<close> of server.js\<close>

definition initializeDriver :: "env \<Rightarrow> system \<Rightarrow> json \<Rightarrow> (error + unit) \<times> system" where
  "initializeDriver ev s p =
     (let s1 = (case deref s (srv_zwaveClient s) of
                  None \<Rightarrow> s
                | Some c \<Rightarrow> store s (srv_zwaveClient s) (close c));
          a = length (heap s1);
          s2 = s1\<lparr>heap := heap s1 @ [new_client p], srv_zwaveClient := Some a\<rparr>
      in
      case connect ev (new_client p) of
        (Inl err, c) \<Rightarrow> (Inl err, store s2 (Some a) c)
      | (Inr u, c) \<Rightarrow>
          (Inr (), (store s2 (Some a) c)
                     \<lparr>srv_currentPort := p, ws_zwaveClient := Some a, ws_currentPort := p\<rparr>))"

subsection \<open>Responses\<close>

text \<open>
  One constructor for each type of response, the request id last. Timestamps are
  wall-clock time and are left out.
\<close>

datatype response =
    ERROR error json
  | PROVISIONING_ENTRIES "entry_info list" json
  | PROVISIONING_ENTRY entry_info json
  | PROVISIONING_ENTRY_ADDED entry json
  | PROVISIONING_ENTRY_STATUS_UPDATED json bool json
  | PROVISIONING_ENTRY_DELETED json json
  | NODES "node_info list" json
  | NODE node_info json
  | STATUS bool json bool json
  | START_SUCCESS json json
  | COMMAND_RESULT send_result json
  | PONG json

text \<open>\<^verbatim>\<open>error.message || fallback\<close>\<close>

fun or_message :: "error \<Rightarrow> string \<Rightarrow> error" where
  "or_message (Msg m) d = (if m = [] then Msg d else Msg m)"
| "or_message e d = e"

subsection \<open>Request handlers\<close>

definition handleGetProvisioningEntries :: "system \<Rightarrow> json \<Rightarrow> response \<times> system" where
  "handleGetProvisioningEntries s requestId =
     (case deref s (ws_zwaveClient s) of
        None \<Rightarrow> (ERROR (Msg ''Driver not ready'') requestId, s)
      | Some c \<Rightarrow>
          if \<not> driverReady c then (ERROR (Msg ''Driver not ready'') requestId, s)
          else
            (case getProvisioningEntries c of
               Inl err \<Rightarrow> (ERROR err requestId, s)
             | Inr entries \<Rightarrow> (PROVISIONING_ENTRIES entries requestId, s)))"

definition handleGetProvisioningEntry :: "system \<Rightarrow> json \<Rightarrow> json \<Rightarrow> response \<times> system" where
  "handleGetProvisioningEntry s data requestId =
     (case deref s (ws_zwaveClient s) of
        None \<Rightarrow> (ERROR (Msg ''Driver not ready'') requestId, s)
      | Some c \<Rightarrow>
          if \<not> driverReady c then (ERROR (Msg ''Driver not ready'') requestId, s)
          else
            (case getProvisioningEntries c of
               Inl err \<Rightarrow> (ERROR err requestId, s)
             | Inr entries \<Rightarrow>
                 (case find (\<lambda>e. strict_eq (dsk e) (getfield data ''dsk'')) entries of
                    Some e \<Rightarrow> (PROVISIONING_ENTRY e requestId, s)
                  | None \<Rightarrow> (ERROR (Msg ''Entry not found'') requestId, s))))"

text \<open>
  The object \<^verbatim>\<open>provisioningEntry\<close> that the handler builds from the request.
\<close>

definition flag :: "json \<Rightarrow> json" where
  "flag v = JBool (asserted v)"

definition provisioningEntry :: "json \<Rightarrow> entry" where
  "provisioningEntry e =
     (let protocol0 = js_or (getfield e ''protocol'') (JStr ''ZWave'');
          securityClassesObj0 =
            (case getfield e ''securityClasses'' of
               JObj kvs \<Rightarrow> JObj kvs
             | _ \<Rightarrow> JObj [(''s2AccessControl'', flag (getfield e ''s2AccessControl'')),
                           (''s2Authenticated'', flag (getfield e ''s2Authenticated'')),
                           (''s2Unauthenticated'', flag (getfield e ''s2Unauthenticated'')),
                           (''s0Legacy'', flag (getfield e ''s0Legacy''))])
      in \<lparr>dsk = getfield e ''dsk'',
          name = js_or (getfield e ''name'') (JStr []),
          location = js_or (getfield e ''location'') (JStr []),
          protocol = protocol0,
          status = (if getfield e ''status'' \<noteq> JUndefined then getfield e ''status'' else JBool False),
          securityClasses = securityClassesObj0,
          s2AccessControl = flag (getfield e ''s2AccessControl''),
          s2Authenticated = flag (getfield e ''s2Authenticated''),
          s2Unauthenticated = flag (getfield e ''s2Unauthenticated''),
          s0Legacy = flag (getfield e ''s0Legacy''),
          supportedProtocols = js_or (getfield e ''supportedProtocols'') (JArr []),
          manufacturerId = getfield e ''manufacturerId'',
          productType = getfield e ''productType'',
          productId = getfield e ''productId'',
          applicationVersion = getfield e ''applicationVersion'',
          nodeId = JUndefined\<rparr>)"

definition handleAddProvisioningEntry :: "system \<Rightarrow> json \<Rightarrow> json \<Rightarrow> response \<times> system" where
  "handleAddProvisioningEntry s data requestId =
     (let e = js_or (getfield data ''entry'') data in
      if \<not> truthy (getfield e ''dsk'') then (ERROR (Msg ''DSK is required'') requestId, s)
      else
        case deref s (ws_zwaveClient s) of
          None \<Rightarrow> (ERROR (Msg ''Driver not ready'') requestId, s)
        | Some c \<Rightarrow>
            if \<not> driverReady c then (ERROR (Msg ''Driver not ready'') requestId, s)
            else
              (case provisionSmartStartNode c (provisioningEntry e) of
                 (Inl err, c') \<Rightarrow> (ERROR err requestId, store s (ws_zwaveClient s) c')
               | (Inr stored, c') \<Rightarrow>
                   (PROVISIONING_ENTRY_ADDED stored requestId, store s (ws_zwaveClient s) c')))"

definition handleUpdateProvisioningEntryStatus :: "system \<Rightarrow> json \<Rightarrow> json \<Rightarrow> response \<times> system" where
  "handleUpdateProvisioningEntryStatus s data requestId =
     (case deref s (ws_zwaveClient s) of
        None \<Rightarrow> (ERROR (Msg ''Driver not ready'') requestId, s)
      | Some c \<Rightarrow>
          if \<not> driverReady c then (ERROR (Msg ''Driver not ready'') requestId, s)
          else if \<not> truthy (getfield data ''dsk'') then (ERROR (Msg ''dsk is required'') requestId, s)
          else
            (case getfield data ''active'' of
               JBool active \<Rightarrow>
                 (case updateProvisioningEntryStatus c (getfield data ''dsk'') active of
                    (Inl err, c') \<Rightarrow> (ERROR err requestId, store s (ws_zwaveClient s) c')
                  | (Inr e, c') \<Rightarrow>
                      (PROVISIONING_ENTRY_STATUS_UPDATED (getfield data ''dsk'') active requestId,
                       store s (ws_zwaveClient s) c'))
             | _ \<Rightarrow> (ERROR (Msg ''active must be a boolean'') requestId, s)))"

definition handleDeleteProvisioningEntry :: "system \<Rightarrow> json \<Rightarrow> json \<Rightarrow> response \<times> system" where
  "handleDeleteProvisioningEntry s data requestId =
     (case deref s (ws_zwaveClient s) of
        None \<Rightarrow> (ERROR (Msg ''Driver not ready'') requestId, s)
      | Some c \<Rightarrow>
          if \<not> driverReady c then (ERROR (Msg ''Driver not ready'') requestId, s)
          else if \<not> truthy (getfield data ''dsk'') then (ERROR (Msg ''dsk is required'') requestId, s)
          else
            (case unprovisionSmartStartNode c (getfield data ''dsk'') of
               (Inl err, c') \<Rightarrow> (ERROR err requestId, store s (ws_zwaveClient s) c')
             | (Inr u, c') \<Rightarrow>
                 (PROVISIONING_ENTRY_DELETED (getfield data ''dsk'') requestId,
                  store s (ws_zwaveClient s) c')))"

definition handleGetNodes :: "system \<Rightarrow> json \<Rightarrow> response \<times> system" where
  "handleGetNodes s requestId =
     (case deref s (ws_zwaveClient s) of
        None \<Rightarrow> (NODES [] requestId, s)
      | Some c \<Rightarrow>
          if \<not> driverReady c then (NODES [] requestId, s)
          else (NODES (getNodes c) requestId, s))"

definition handleGetNode :: "env \<Rightarrow> system \<Rightarrow> json \<Rightarrow> json \<Rightarrow> response \<times> system" where
  "handleGetNode ev s data requestId =
     (case deref s (ws_zwaveClient s) of
        None \<Rightarrow> (ERROR (Msg ''Driver not ready'') requestId, s)
      | Some c \<Rightarrow>
          if \<not> driverReady c then (ERROR (Msg ''Driver not ready'') requestId, s)
          else
            (case js_parseInt (parseInt10 ev) (getfield data ''nodeId'') of
               Inl err \<Rightarrow> (ERROR err requestId, s)
             | Inr n \<Rightarrow>
                 if n = NaN then (ERROR (Msg ''Invalid nodeId'') requestId, s)
                 else
                   (case getNode c n of
                      Some node \<Rightarrow> (NODE node requestId, s)
                    | None \<Rightarrow> (ERROR (Msg ''Node not found'') requestId, s))))"

definition handleGetStatus :: "system \<Rightarrow> json \<Rightarrow> response \<times> system" where
  "handleGetStatus s requestId =
     (STATUS (ws_ready s) (ws_currentPort s) (deref s (ws_zwaveClient s) \<noteq> None) requestId, s)"

definition default_port :: json where
  "default_port = JStr ''/dev/tty.usbserial-DK0E7J3D''"

definition handleStart :: "env \<Rightarrow> system \<Rightarrow> json \<Rightarrow> json \<Rightarrow> response \<times> system" where
  "handleStart ev s data requestId =
     (if ws_ready s then (ERROR (Msg ''Driver is already started'') requestId, s)
      else
        let p = js_or (js_or (getfield data ''port'') (ws_currentPort s)) default_port in
        if ws_initializeDriver s then
          (case initializeDriver ev s p of
             (Inl err, s') \<Rightarrow> (ERROR (or_message err ''Failed to start driver'') requestId, s')
           | (Inr u, s') \<Rightarrow> (START_SUCCESS p requestId, s'))
        else if \<not> ws_securityKeys s \<or> \<not> ws_securityKeysLongRange s
        then (ERROR (Msg ''Security keys not configured'') requestId, s)
        else
          let s1 = (case deref s (ws_zwaveClient s) of
                      None \<Rightarrow> s
                    | Some c \<Rightarrow> store s (ws_zwaveClient s) (close c));
              a = length (heap s1);
              s2 = s1\<lparr>heap := heap s1 @ [new_client p], ws_zwaveClient := Some a\<rparr>
          in
          case connect ev (new_client p) of
            (Inl err, c) \<Rightarrow>
              (ERROR (or_message err ''Failed to start driver'') requestId, store s2 (Some a) c)
          | (Inr u, c) \<Rightarrow>
              (START_SUCCESS p requestId, (store s2 (Some a) c)\<lparr>ws_currentPort := p\<rparr>))"

text \<open>
  \<^verbatim>\<open>Number.isInteger(v) ? v : Number(v) || d\<close>; on an integer \<open>v\<close> the conversion
  \<open>Number\<close> returns \<open>v\<close> itself.
\<close>

definition integer_or :: "'a runtime_scheme \<Rightarrow> json \<Rightarrow> rat \<Rightarrow> error + jsnum" where
  "integer_or rt v d =
     (if isInteger v then Number rt v
      else
        case Number rt v of
          Inl err \<Rightarrow> Inl err
        | Inr n \<Rightarrow> Inr (if num_truthy n then n else Fin d))"

definition numericNodeId :: "'a runtime_scheme \<Rightarrow> json \<Rightarrow> error + jsnum" where
  "numericNodeId rt nodeId_arg = integer_or rt nodeId_arg 2"

definition numericCount :: "'a runtime_scheme \<Rightarrow> json \<Rightarrow> error + jsnum" where
  "numericCount rt count_arg = integer_or rt count_arg 1"

text \<open>The two branches of the test for the prefix \<^verbatim>\<open>0x\<close> are the same call.\<close>

definition numericManufacturerId :: "'a runtime_scheme \<Rightarrow> json \<Rightarrow> error + jsnum" where
  "numericManufacturerId rt m =
     (if isInteger m then Number rt m
      else if m \<noteq> JUndefined then js_parseInt (parseInt16 rt) m
      else Inr (Fin 0))"

definition handleSendCommand :: "env \<Rightarrow> system \<Rightarrow> json \<Rightarrow> json \<Rightarrow> response \<times> system" where
  "handleSendCommand ev s data requestId =
     (case deref s (ws_zwaveClient s) of
        None \<Rightarrow> (ERROR (Msg ''Driver not ready'') requestId, s)
      | Some c \<Rightarrow>
          if \<not> driverReady c then (ERROR (Msg ''Driver not ready'') requestId, s)
          else
            let payloadHex = getfield data ''payloadHex'' in
            if \<not> truthy payloadHex then (ERROR (Msg ''payloadHex is required'') requestId, s)
            else
              (case (case payloadHex of JStr h \<Rightarrow> hexTo32ByteBuffer h | _ \<Rightarrow> Inl TypeError) of
                 Inl err \<Rightarrow> (ERROR (or_message err ''Invalid payloadHex format'') requestId, s)
               | Inr vendorPayload \<Rightarrow>
                   (case numericNodeId ev (getfield data ''nodeId'') of
                      Inl err \<Rightarrow>
                        (ERROR (or_message err ''Failed to send custom Manufacturer Proprietary'') requestId, s)
                    | Inr nid \<Rightarrow>
                   (case numericManufacturerId ev (getfield data ''manufacturerId'') of
                      Inl err \<Rightarrow>
                        (ERROR (or_message err ''Failed to send custom Manufacturer Proprietary'') requestId, s)
                    | Inr mid \<Rightarrow>
                   (case numericCount ev (getfield data ''count'') of
                      Inl err \<Rightarrow>
                        (ERROR (or_message err ''Failed to send custom Manufacturer Proprietary'') requestId, s)
                    | Inr cnt \<Rightarrow>
                   (case sendManufacturerProprietaryCustom ev c (Some nid) vendorPayload (Some mid) (Some cnt) of
                      (Inl err, c') \<Rightarrow>
                        (ERROR (or_message err ''Failed to send custom Manufacturer Proprietary'') requestId,
                         store s (ws_zwaveClient s) c')
                    | (Inr result, c') \<Rightarrow>
                        (COMMAND_RESULT result requestId, store s (ws_zwaveClient s) c')))))))"

subsection \<open>Routing a socket message\<close>

text \<open>
  The text of a frame is either not JSON or parses to a value. \<open>sendToClient\<close> writes
  to a socket only when it is open.
\<close>

datatype message = Malformed | Parsed json

definition JSON_parse :: "message \<Rightarrow> error + json" where
  "JSON_parse m = (case m of Malformed \<Rightarrow> Inl SyntaxError | Parsed v \<Rightarrow> Inr v)"

definition sendToClient :: "bool \<Rightarrow> response \<Rightarrow> response list" where
  "sendToClient is_open r = (if is_open then [r] else [])"

text \<open>
  The body of the \<^verbatim>\<open>try\<close> block. The handlers catch their own errors, so the block
  throws only where it parses the text, where it reads \<^verbatim>\<open>data.type\<close>, and where
  the default branch writes a type that is not a string into its message,
  \<^verbatim>\<open>`Unknown message type: ${data.type}`\<close>.
\<close>

definition dispatch ::
  "env \<Rightarrow> system \<Rightarrow> json \<Rightarrow> json \<Rightarrow> json \<Rightarrow> error + response \<times> system" where
  "dispatch ev s ty data requestId =
     (if strict_eq ty (JStr ''GET_PROVISIONING_ENTRIES'') then Inr (handleGetProvisioningEntries s requestId)
      else if strict_eq ty (JStr ''GET_PROVISIONING_ENTRY'')
        then Inr (handleGetProvisioningEntry s data requestId)
      else if strict_eq ty (JStr ''ADD_PROVISIONING_ENTRY'')
        then Inr (handleAddProvisioningEntry s data requestId)
      else if strict_eq ty (JStr ''UPDATE_PROVISIONING_ENTRY_STATUS'')
        then Inr (handleUpdateProvisioningEntryStatus s data requestId)
      else if strict_eq ty (JStr ''DELETE_PROVISIONING_ENTRY'')
        then Inr (handleDeleteProvisioningEntry s data requestId)
      else if strict_eq ty (JStr ''GET_NODES'') then Inr (handleGetNodes s requestId)
      else if strict_eq ty (JStr ''GET_NODE'') then Inr (handleGetNode ev s data requestId)
      else if strict_eq ty (JStr ''GET_STATUS'') then Inr (handleGetStatus s requestId)
      else if strict_eq ty (JStr ''START'') then Inr (handleStart ev s data requestId)
      else if strict_eq ty (JStr ''SEND_COMMAND'') then Inr (handleSendCommand ev s data requestId)
      else if strict_eq ty (JStr ''PING'') then Inr (PONG requestId, s)
      else if toString_throws ty then Inl TypeError
      else Inr (ERROR (UnknownMessageType ty) requestId, s))"

definition handleMessage_try ::
  "env \<Rightarrow> system \<Rightarrow> bool \<Rightarrow> message \<Rightarrow> error + response list \<times> system" where
  "handleMessage_try ev s is_open m =
     (case JSON_parse m of
        Inl err \<Rightarrow> Inl err
      | Inr data \<Rightarrow>
          (case getprop data ''type'' of
             Inl err \<Rightarrow> Inl err
           | Inr ty \<Rightarrow>
               if \<not> truthy ty
               then Inr (sendToClient is_open
                           (ERROR (Msg ''Message must have a 'type' field'') (getfield data ''requestId'')), s)
               else
                 (case dispatch ev s ty data (getfield data ''requestId'') of
                    Inl err \<Rightarrow> Inl err
                  | Inr (r, s') \<Rightarrow> Inr (sendToClient is_open r, s'))))"

text \<open>
  \<^verbatim>\<open>handleMessage\<close> is an asynchronous function that the socket's listener calls
  without awaiting it. The result is the error its promise is rejected with, if any
  (nothing handles that rejection), the messages written to the socket, and the new
  state. The \<^verbatim>\<open>catch\<close> block parses the text again to find the request id.
\<close>

definition handleMessage ::
  "env \<Rightarrow> system \<Rightarrow> bool \<Rightarrow> message \<Rightarrow> error option \<times> response list \<times> system" where
  "handleMessage ev s is_open m =
     (case handleMessage_try ev s is_open m of
        Inr (rs, s') \<Rightarrow> (None, rs, s')
      | Inl err \<Rightarrow>
          (case JSON_parse m of
             Inl err2 \<Rightarrow> (Some err2, [], s)
           | Inr data \<Rightarrow>
               (case getprop data ''requestId'' of
                  Inl err3 \<Rightarrow> (Some err3, [], s)
                | Inr requestId \<Rightarrow> (None, sendToClient is_open (ERROR err requestId), s))))"

section \<open>The device wrapper (ZWaveLock.js)\<close>

text \<open>
  An inbound command as the interceptor reads it: the class identifier, whether the
  object is an instance of the driver's class \<^verbatim>\<open>ManufacturerProprietaryCC\<close>, the name
  of its constructor, and the fields copied into the event.
\<close>

record command =
  ccId :: nat
  instanceofMP :: bool
  constructor_name :: "string option"
  cmd_manufacturerId :: json
  cmd_payload :: "byte list option"
  cmd_endpointIndex :: "nat option"

record commandData =
  cd_nodeId :: nat
  cd_manufacturerId :: json
  cd_payload :: "byte list option"
  cd_payloadLength :: nat
  cd_endpointIndex :: nat

text \<open>
  What handling a command does: publish the event \<^verbatim>\<open>manufacturerProprietaryCommand\<close>,
  or whatever the driver's own handler does, which is left open.
\<close>

datatype 'a action = manufacturerProprietaryCommand commandData | Effect 'a

type_synonym 'a handler = "command \<Rightarrow> 'a action list"

record 'a lnode = znode +
  handleCommand :: "'a handler option"
  mpHandlerAttached :: bool

record 'a ZWaveLock =
  lock_node :: "'a lnode"
  lock_nodeId :: nat
  mpAPI :: bool

definition isManufacturerProprietary :: "command \<Rightarrow> bool" where
  "isManufacturerProprietary c =
     (ccId c = 0x91 \<or> instanceofMP c \<or> constructor_name c = Some ''ManufacturerProprietaryCC'')"

definition commandData_of :: "nat \<Rightarrow> command \<Rightarrow> commandData" where
  "commandData_of nid c =
     \<lparr>cd_nodeId = nid,
      cd_manufacturerId = cmd_manufacturerId c,
      cd_payload = cmd_payload c,
      cd_payloadLength = (case cmd_payload c of None \<Rightarrow> 0 | Some p \<Rightarrow> length p),
      cd_endpointIndex = (case cmd_endpointIndex c of None \<Rightarrow> 0 | Some i \<Rightarrow> i)\<rparr>"

text \<open>The function that replaces \<^verbatim>\<open>node.handleCommand\<close>.\<close>

definition wrapped_handleCommand :: "nat \<Rightarrow> 'a handler \<Rightarrow> 'a handler" where
  "wrapped_handleCommand nid originalHandleCommand =
     (\<lambda>c. if isManufacturerProprietary c
          then [manufacturerProprietaryCommand (commandData_of nid c)]
          else originalHandleCommand c)"

definition setupManufacturerProprietaryCommandHandler :: "'a ZWaveLock \<Rightarrow> 'a ZWaveLock" where
  "setupManufacturerProprietaryCommandHandler lk =
     (case handleCommand (lock_node lk) of
        None \<Rightarrow> lk
      | Some originalHandleCommand \<Rightarrow>
          if mpHandlerAttached (lock_node lk) then lk
          else lk\<lparr>lock_node := (lock_node lk)
                    \<lparr>handleCommand := Some (wrapped_handleCommand (lock_nodeId lk) originalHandleCommand),
                     mpHandlerAttached := True\<rparr>\<rparr>)"

text \<open>What the device does with an inbound command: it calls its current handler.\<close>

definition receive :: "'a ZWaveLock \<Rightarrow> command \<Rightarrow> 'a action list" where
  "receive lk c = (case handleCommand (lock_node lk) of None \<Rightarrow> [] | Some h \<Rightarrow> h c)"

text \<open>The payload argument of \<^verbatim>\<open>sendCustom\<close>: a buffer, a string, or anything else.\<close>

datatype payload_arg = PBuffer "byte list" | PString string | POther json

fun payload_truthy :: "payload_arg \<Rightarrow> bool" where
  "payload_truthy (PBuffer b) = True"
| "payload_truthy (PString s) = (s \<noteq> [])"
| "payload_truthy (POther v) = truthy v"

text \<open>The lock's own \<^verbatim>\<open>forceManufacturerProprietarySupport\<close>, on its device.\<close>

definition lock_force :: "'a lnode \<Rightarrow> 'a lnode" where
  "lock_force n =
     (if \<not> node_canAddCC n then n
      else if 0x91 \<in> set (node_supportedCCs n) then n
      else n\<lparr>node_supportedCCs := node_supportedCCs n @ [0x91]\<rparr>)"

definition sendCustom ::
  "env \<Rightarrow> 'a ZWaveLock \<Rightarrow> payload_arg \<Rightarrow> jsnum option \<Rightarrow> jsnum option \<Rightarrow> frame list
     \<Rightarrow> (error + send_result) \<times> 'a ZWaveLock \<times> frame list" where
  "sendCustom ev lk payload manufacturerId_arg count_arg hist =
     (let mid = (case manufacturerId_arg of None \<Rightarrow> Fin 0 | Some m \<Rightarrow> m);
          count = (case count_arg of None \<Rightarrow> Fin 1 | Some k \<Rightarrow> k)
      in
      if \<not> payload_truthy payload then (Inl (Msg ''payload is required''), lk, hist)
      else if \<not> node_ready (lock_node lk) then (Inl (NodeNotReady (Fin (of_nat (lock_nodeId lk)))), lk, hist)
      else
        case (case payload of
                PBuffer b \<Rightarrow> Inr b
              | PString h \<Rightarrow> hexTo32ByteBuffer h
              | POther v \<Rightarrow> Inl (Msg ''payload must be a Buffer or hex string'')) of
          Inl err \<Rightarrow> (Inl err, lk, hist)
        | Inr vendorPayload \<Rightarrow>
            if length vendorPayload \<noteq> 32
            then (Inl (PayloadWrongLength (length vendorPayload)), lk, hist)
            else
              let count' = clamp_count count;
                  node' = lock_force (lock_node lk);
                  api = (mpAPI lk \<or> 0x91 \<in> set (node_supportedCCs node'));
                  lk' = lk\<lparr>lock_node := node', mpAPI := api\<rparr>
              in
              if \<not> api
              then (Inl (NoManufacturerProprietaryCC (Fin (of_nat (lock_nodeId lk)))), lk', hist)
              else
                case send_frames ev (lock_nodeId lk, mid, vendorPayload) count' hist of
                  (Inl err, hist') \<Rightarrow> (Inl err, lk', hist')
                | (Inr results, hist') \<Rightarrow>
                    (Inr \<lparr>res_nodeId = Fin (of_nat (lock_nodeId lk)), res_count = count',
                          res_vendorPayloadHex = toHex vendorPayload,
                          res_manufacturerId = mid, res_results = results\<rparr>,
                     lk', hist'))"

section \<open>The lifecycle of the specification, and examples\<close>

text \<open>
  The specification speaks of a lifecycle state; the code keeps none. It is read off the
  plugin's client here: no client (or one whose driver was never created) is
  \<open>Uninitialized\<close>, a client whose driver was started and has not yet signalled that it is
  ready is \<open>Starting\<close>, then \<open>Ready\<close>; a closed client is \<open>Stopped\<close>.
\<close>

datatype lifecycle = Uninitialized | Starting | Ready | Stopped

definition lifecycle_of :: "system \<Rightarrow> lifecycle" where
  "lifecycle_of s =
     (case deref s (ws_zwaveClient s) of
        None \<Rightarrow> Uninitialized
      | Some c \<Rightarrow>
          if driverReady c then Ready
          else if destroyed c then Stopped
          else if driver c then Starting
          else Uninitialized)"

text \<open>
  An inbound command is well formed when an object of the driver's class
  \<^verbatim>\<open>ManufacturerProprietaryCC\<close> carries that class's identifier, as the driver library
  has it.
\<close>

definition wf_command :: "command \<Rightarrow> bool" where
  "wf_command c =
     (if instanceofMP c \<or> constructor_name c = Some ''ManufacturerProprietaryCC''
      then ccId c = 0x91 else True)"

text \<open>
  The state server.js sets up before any request: no client, the plugin given
  \<^verbatim>\<open>initializeDriver\<close> and both sets of keys.
\<close>

definition initial_system :: system where
  "initial_system =
     \<lparr>heap = [], srv_zwaveClient = None, srv_currentPort = default_port,
      ws_zwaveClient = None, ws_currentPort = default_port,
      ws_initializeDriver = True, ws_securityKeys = True, ws_securityKeysLongRange = True\<rparr>"

text \<open>
  An environment for the examples: a network of one device, number 2, that is ready
  and answers every frame. Its conversions are the language's on the values the examples
  use: the empty string and strings of decimal digits for \<^verbatim>\<open>Number\<close>, these strings and
  whole numbers below \<open>10\<^sup>2\<^sup>1\<close> for \<^verbatim>\<open>parseInt\<close> with radix 10; no example
  reaches \<^verbatim>\<open>parseInt\<close> with radix 16 or the text of an array.
\<close>

definition example_node :: znode where
  "example_node =
     \<lparr>node_id = 2, node_name = ''LOCK'', node_status = Alive, node_ready = True,
      node_deviceConfig = None, node_canAddCC = True, node_supportedCCs = []\<rparr>"

definition digits_value :: "string \<Rightarrow> nat" where
  "digits_value s = foldl (\<lambda>a c. 10 * a + (of_char c - 48)) 0 s"

definition example_number :: "string \<Rightarrow> jsnum" where
  "example_number s = (if list_all is_digit s then Fin (of_nat (digits_value s)) else NaN)"

definition example_env :: env where
  "example_env =
     \<lparr>str_to_num = example_number,
      arr_to_str = (\<lambda>xs. []),
      parseInt16 = (\<lambda>v. NaN),
      parseInt10 =
        (\<lambda>v. case v of
               JStr s \<Rightarrow> if s = [] then NaN else example_number s
             | JNum (Fin r) \<Rightarrow> if of_int \<lfloor>r\<rfloor> = r \<and> \<bar>r\<bar> < 10 ^ 21 then Fin r else NaN
             | _ \<Rightarrow> NaN),
      sendData = (\<lambda>h f. Inr JUndefined),
      waitForDriverReady = None,
      driver_start = (\<lambda>p. Started [example_node] [])\<rparr>"

text \<open>The system after a first \<^verbatim>\<open>START\<close>, and after the driver's ready event.\<close>

definition starting_system :: system where
  "starting_system = snd (handleStart example_env initial_system (JObj [(''type'', JStr ''START'')]) JUndefined)"

definition ready_system :: system where
  "ready_system = driver_ready_event 0 starting_system"

definition example_payloadHex :: string where
  "example_payloadHex = ''0001020304050607080900010203040506070809000102030405060708090002''"

text \<open>
  The client of the ready system; the payload of the examples; an environment whose
  device answers two frames and then times out; a lock on device 2 whose driver handles
  a command by itself.
\<close>

definition ready_client :: zclient where
  "ready_client =
     \<lparr>port = default_port, driver = True, driverReady = True, destroyed = False,
      nodes = [forceManufacturerProprietarySupport example_node],
      provisioningList = [], sent = []\<rparr>"

definition example_payload :: "byte list" where
  "example_payload = hexDecode example_payloadHex"

definition flaky_env :: env where
  "flaky_env =
     example_env\<lparr>sendData := (\<lambda>h f. if length h < 2 then Inr JUndefined else Inl (Msg ''timeout''))\<rparr>"

definition example_lock :: "command ZWaveLock" where
  "example_lock =
     \<lparr>lock_node =
        \<lparr>node_id = 2, node_name = ''LOCK'', node_status = Alive, node_ready = True,
         node_deviceConfig = None, node_canAddCC = True, node_supportedCCs = [],
         handleCommand = Some (\<lambda>c. [Effect c]), mpHandlerAttached = False\<rparr>,
      lock_nodeId = 2, mpAPI = False\<rparr>"

text \<open>
  Two inbound commands: one of the vendor class, one of the class Basic (0x20).
\<close>

definition vendor_command :: command where
  "vendor_command =
     \<lparr>ccId = 0x91, instanceofMP = True, constructor_name = Some ''ManufacturerProprietaryCC'',
      cmd_manufacturerId = JNum (Fin 0), cmd_payload = Some [1, 2, 3], cmd_endpointIndex = None\<rparr>"

definition basic_command :: command where
  "basic_command =
     \<lparr>ccId = 0x20, instanceofMP = False, constructor_name = Some ''BasicCCSet'',
      cmd_manufacturerId = JUndefined, cmd_payload = Some [255], cmd_endpointIndex = Some 0\<rparr>"

text \<open>
  Three requests to add an entry for the same DSK: one that lists Long Range among the
  supported protocols, one that does not, and one that gives the security classes both
  as an object and as single flags.
\<close>

definition example_dsk :: string where
  "example_dsk = ''4425406861292921573332592570654719610214''"

definition long_range_request :: json where
  "long_range_request =
     JObj [(''type'', JStr ''ADD_PROVISIONING_ENTRY''), (''dsk'', JStr example_dsk),
           (''name'', JStr ''LOCK''), (''status'', JBool True),
           (''supportedProtocols'', JArr [ZWave, ZWaveLongRange])]"

definition standard_request :: json where
  "standard_request =
     JObj [(''type'', JStr ''ADD_PROVISIONING_ENTRY''), (''dsk'', JStr example_dsk),
           (''name'', JStr ''LOCK''), (''status'', JBool True),
           (''supportedProtocols'', JArr [ZWave])]"

definition classes_request :: json where
  "classes_request =
     JObj [(''type'', JStr ''ADD_PROVISIONING_ENTRY''), (''dsk'', JStr example_dsk),
           (''s2AccessControl'', JBool True), (''s2Authenticated'', JBool False),
           (''securityClasses'',
              JObj [(''s2AccessControl'', JBool False), (''s0Legacy'', JStr ''true'')])]"

text \<open>
  The entry that \<open>provisionSmartStartNode\<close> writes to the store for the entry \<open>e0\<close> of
  a request, given whether the Long Range policy forces it inactive; lemma
  \<open>provision_ready\<close> below shows that it is.
\<close>

definition stored_entry :: "entry \<Rightarrow> bool \<Rightarrow> entry" where
  "stored_entry e0 forced =
     e0\<lparr>dsk := normalizeDSK (dsk e0),
        status := (if forced then Inactive
                   else if strict_eq (status e0) (JBool True) \<or> strict_eq (status e0) (JStr ''active'')
                   then Active else Inactive),
        protocol := convertProtocol (protocol e0),
        securityClasses := JArr (securityClassesArray e0)\<rparr>"

section \<open>Properties\<close>

declare send_loop.simps [simp del]

subsection \<open>Payload validation\<close>

lemma length_hexDecode:
  "list_all is_hex s \<Longrightarrow> length (hexDecode s) = length s div 2"
  by (induction s rule: hexDecode.induct) (auto simp: is_hex_def)

text \<open>
  Which strings the validation accepts: after the white space is taken out, only
  hexadecimal characters, 64 or 65 of them.
\<close>

lemma hexTo32ByteBuffer_accepts_iff:
  "(\<exists>buf. hexTo32ByteBuffer s = Inr buf) \<longleftrightarrow>
     list_all is_hex (filter (\<lambda>c. \<not> is_space c) s) \<and>
     length (filter (\<lambda>c. \<not> is_space c) s) \<in> {64, 65}"
proof -
  let ?n = "filter (\<lambda>c. \<not> is_space c) s"
  show ?thesis
  proof (cases "list_all is_hex ?n")
    case False
    then show ?thesis by (simp add: hexTo32ByteBuffer_def Let_def)
  next
    case True
    have "length ?n div 2 = 32 \<longleftrightarrow> length ?n \<in> {64, 65}" by auto
    with True show ?thesis
      by (auto simp: hexTo32ByteBuffer_def Let_def length_hexDecode)
  qed
qed

text \<open>
  C1. The claim: a payload given as a string is accepted exactly when, white space
  stripped, it has only hexadecimal characters and decodes to 32 bytes, so that of the
  lengths 62 to 66 only 64 is accepted. The code at these five lengths: a string of 65
  hexadecimal characters decodes to 32 bytes, its last character dropped, and is
  accepted like one of 64.
\<close>

theorem hexTo32ByteBuffer_lengths_62_to_66:
  "hexTo32ByteBuffer (replicate 62 CHR ''0'') = Inl (PayloadWrongLength 31) \<and>
   hexTo32ByteBuffer (replicate 63 CHR ''0'') = Inl (PayloadWrongLength 31) \<and>
   hexTo32ByteBuffer (replicate 64 CHR ''0'') = Inr (replicate 32 0) \<and>
   hexTo32ByteBuffer (replicate 65 CHR ''0'') = Inr (replicate 32 0) \<and>
   hexTo32ByteBuffer (replicate 66 CHR ''0'') = Inl (PayloadWrongLength 33)"
  by code_simp

lemma hexTo32ByteBuffer_Inr:
  "hexTo32ByteBuffer h = Inr p \<Longrightarrow> h \<noteq> [] \<and> length p = 32"
  by (auto simp: hexTo32ByteBuffer_def Let_def split: if_splits)

subsection \<open>The frame loop and the count\<close>

lemma replicate_snoc_append: "(hist @ [fr]) @ replicate j fr = hist @ replicate (Suc j) fr"
  by (simp add: replicate_app_Cons_same)

lemma send_loop_fails_at:
  "\<forall>j<k. \<exists>r. sendData ev (hist @ replicate j fr) fr = Inr r \<Longrightarrow>
   sendData ev (hist @ replicate k fr) fr = Inl err \<Longrightarrow>
   of_nat (i + k) < count \<Longrightarrow>
   send_loop ev fr count i results hist = (Inl err, hist @ replicate (Suc k) fr)"
proof (induction k arbitrary: i results hist)
  case 0
  then show ?case by (subst send_loop.simps) simp
next
  case (Suc k)
  from Suc.prems(1) obtain r where r: "sendData ev hist fr = Inr r"
    by (metis append_Nil2 replicate_0 zero_less_Suc)
  have step: "\<forall>j<k. \<exists>r. sendData ev ((hist @ [fr]) @ replicate j fr) fr = Inr r"
  proof (intro allI impI)
    fix j assume "j < k"
    then have "Suc j < Suc k" by simp
    with Suc.prems(1) have "\<exists>r. sendData ev (hist @ replicate (Suc j) fr) fr = Inr r" by blast
    then show "\<exists>r. sendData ev ((hist @ [fr]) @ replicate j fr) fr = Inr r" by simp
  qed
  have fail: "sendData ev ((hist @ [fr]) @ replicate k fr) fr = Inl err"
    using Suc.prems(2) by simp
  have lt: "of_nat i < count" using Suc.prems(3) by simp
  have lt': "of_nat (Suc i + k) < count" using Suc.prems(3) by simp
  have "send_loop ev fr count i results hist =
        send_loop ev fr count (Suc i) (results @ [(i + 1, r)]) (hist @ [fr])"
    by (subst send_loop.simps) (simp add: lt r)
  also have "\<dots> = (Inl err, (hist @ [fr]) @ replicate (Suc k) fr)"
    by (rule Suc.IH [OF step fail lt'])
  finally show ?case by (simp add: replicate_app_Cons_same)
qed

lemma lt_ceiling_nat: "(of_nat i < (count::rat)) \<longleftrightarrow> i < nat \<lceil>count\<rceil>"
proof -
  have "(of_nat i < count) \<longleftrightarrow> (of_int (int i) < count)" by simp
  also have "\<dots> \<longleftrightarrow> int i < \<lceil>count\<rceil>" by (simp only: less_ceiling_iff)
  also have "\<dots> \<longleftrightarrow> i < nat \<lceil>count\<rceil>" by linarith
  finally show ?thesis .
qed

lemma send_loop_succeeds:
  "\<forall>h. \<exists>r. sendData ev h fr = Inr r \<Longrightarrow> n = nat \<lceil>count\<rceil> - i \<Longrightarrow>
   \<exists>rs. send_loop ev fr count i results hist = (Inr rs, hist @ replicate n fr) \<and>
        length rs = length results + n"
proof (induction n arbitrary: i results hist)
  case 0
  then have "\<not> of_nat i < count" by (simp add: lt_ceiling_nat)
  then show ?case by (subst send_loop.simps) simp
next
  case (Suc n)
  then have lt: "of_nat i < count" by (simp add: lt_ceiling_nat)
  from Suc.prems(1) obtain r where r: "sendData ev hist fr = Inr r" by blast
  have n: "n = nat \<lceil>count\<rceil> - Suc i" using Suc.prems(2) by simp
  from Suc.IH [OF Suc.prems(1) n, of "results @ [(i + 1, r)]" "hist @ [fr]"]
  obtain rs where rs: "send_loop ev fr count (Suc i) (results @ [(i + 1, r)]) (hist @ [fr]) =
      (Inr rs, (hist @ [fr]) @ replicate n fr)" "length rs = length (results @ [(i + 1, r)]) + n"
    by blast
  have "send_loop ev fr count i results hist =
        send_loop ev fr count (Suc i) (results @ [(i + 1, r)]) (hist @ [fr])"
    by (subst send_loop.simps) (simp add: lt r)
  with rs show ?case by (simp add: replicate_app_Cons_same)
qed

lemma send_frames_succeeds:
  assumes "\<forall>h. \<exists>r. sendData ev h fr = Inr r"
  shows "\<exists>rs. send_frames ev fr (Fin k) hist = (Inr rs, hist @ replicate (nat \<lceil>k\<rceil>) fr) \<and>
              length rs = nat \<lceil>k\<rceil>"
  using send_loop_succeeds [OF assms, of "nat \<lceil>k\<rceil>" k 0 "[]" hist]
  by (simp add: send_frames_def)

lemma send_frames_fails_at:
  assumes "\<forall>j<n. \<exists>r. sendData ev (hist @ replicate j fr) fr = Inr r"
    "sendData ev (hist @ replicate n fr) fr = Inl err" "of_nat n < k"
  shows "send_frames ev fr (Fin k) hist = (Inl err, hist @ replicate (Suc n) fr)"
  using send_loop_fails_at [OF assms(1,2), of 0 k "[]"] assms(3)
  by (simp add: send_frames_def)

lemma clamp_count_range:
  "c \<noteq> NaN \<Longrightarrow> \<exists>k. clamp_count c = Fin k \<and> 0 < k \<and> k \<le> 100"
  by (cases c) (auto simp: clamp_count_def Let_def)

lemma clamp_count_frames:
  "c \<noteq> NaN \<Longrightarrow> \<exists>k. clamp_count c = Fin k \<and> 1 \<le> nat \<lceil>k\<rceil> \<and> nat \<lceil>k\<rceil> \<le> 100"
proof -
  assume "c \<noteq> NaN"
  then obtain k where k: "clamp_count c = Fin k" "0 < k" "k \<le> 100"
    using clamp_count_range by blast
  have "0 < \<lceil>k\<rceil>" using k(2) by (simp add: ceiling_less_iff)
  moreover have "\<lceil>k\<rceil> \<le> 100" using k(3) by (simp add: ceiling_le_iff)
  ultimately have "1 \<le> nat \<lceil>k\<rceil> \<and> nat \<lceil>k\<rceil> \<le> 100" by linarith
  with k(1) show ?thesis by blast
qed

lemma clamp_count_int:
  "clamp_count (Fin (of_int z)) = Fin (of_int (max 1 (min 100 z)))"
  by (auto simp: clamp_count_def Let_def max_def min_def)

lemma clamp_count_NaN: "clamp_count NaN = NaN"
  by (simp add: clamp_count_def)

lemma integer_or_not_NaN: "integer_or rt v d \<noteq> Inr NaN"
proof (cases "isInteger v")
  case True
  then obtain r where "v = JNum (Fin r)" by (elim isInteger.elims) auto
  with True show ?thesis by (simp add: integer_or_def)
next
  case False
  show ?thesis
  proof (cases "Number rt v")
    case (Inl err)
    with False show ?thesis by (simp add: integer_or_def)
  next
    case (Inr n)
    with False show ?thesis by (cases n) (auto simp: integer_or_def)
  qed
qed

lemma sender_reaches_loop:
  assumes "driver c" "driverReady c" "length p = 32"
    "nodes_get (nodes c) nid = Some node" "node_ready node"
    "has_ccMP (forceManufacturerProprietarySupport node)"
  shows "sendManufacturerProprietaryCustom ev c (Some nid) p (Some mid) (Some count) =
     (let c1 = c\<lparr>nodes := map (\<lambda>n. if node_id n = node_id node
                                      then forceManufacturerProprietarySupport node else n) (nodes c)\<rparr>
      in case send_frames ev (node_id node, mid, p) (clamp_count count) (sent c) of
           (Inl err, h) \<Rightarrow> (Inl err, c1\<lparr>sent := h\<rparr>)
         | (Inr results, h) \<Rightarrow>
             (Inr \<lparr>res_nodeId = nid, res_count = clamp_count count,
                   res_vendorPayloadHex = toHex p, res_manufacturerId = mid,
                   res_results = results\<rparr>, c1\<lparr>sent := h\<rparr>))"
  using assms by (simp add: sendManufacturerProprietaryCustom_def Let_def)

lemma sender_succeeds:
  assumes "driver c" "driverReady c" "length p = 32"
    "nodes_get (nodes c) nid = Some node" "node_ready node"
    "has_ccMP (forceManufacturerProprietarySupport node)"
    "\<forall>h f. \<exists>r. sendData ev h f = Inr r" "count \<noteq> NaN"
  shows "\<exists>k res c'. clamp_count count = Fin k \<and> 1 \<le> nat \<lceil>k\<rceil> \<and> nat \<lceil>k\<rceil> \<le> 100 \<and>
       sendManufacturerProprietaryCustom ev c (Some nid) p (Some mid) (Some count) = (Inr res, c') \<and>
       res_nodeId res = nid \<and> res_count res = Fin k \<and> length (res_results res) = nat \<lceil>k\<rceil> \<and>
       sent c' = sent c @ replicate (nat \<lceil>k\<rceil>) (node_id node, mid, p)"
proof -
  from clamp_count_frames [OF assms(8)] obtain k where
    k: "clamp_count count = Fin k" "1 \<le> nat \<lceil>k\<rceil>" "nat \<lceil>k\<rceil> \<le> 100" by blast
  from assms(7) have "\<forall>h. \<exists>r. sendData ev h (node_id node, mid, p) = Inr r" by blast
  from send_frames_succeeds [OF this, of k "sent c"] obtain rs where
    rs: "send_frames ev (node_id node, mid, p) (Fin k) (sent c) =
           (Inr rs, sent c @ replicate (nat \<lceil>k\<rceil>) (node_id node, mid, p))"
        "length rs = nat \<lceil>k\<rceil>" by blast
  show ?thesis
    using k rs by (simp add: sender_reaches_loop [OF assms(1-6)] Let_def)
qed

lemma sender_fails_at:
  assumes "driver c" "driverReady c" "length p = 32"
    "nodes_get (nodes c) nid = Some node" "node_ready node"
    "has_ccMP (forceManufacturerProprietarySupport node)"
    "clamp_count count = Fin k" "of_nat n < k"
    "\<forall>j<n. \<exists>r. sendData ev (sent c @ replicate j (node_id node, mid, p)) (node_id node, mid, p) = Inr r"
    "sendData ev (sent c @ replicate n (node_id node, mid, p)) (node_id node, mid, p) = Inl err"
  shows "\<exists>c'. sendManufacturerProprietaryCustom ev c (Some nid) p (Some mid) (Some count) = (Inl err, c') \<and>
       sent c' = sent c @ replicate (Suc n) (node_id node, mid, p)"
  using send_frames_fails_at [OF assms(9,10,8)] assms(7)
  by (simp add: sender_reaches_loop [OF assms(1-6)] Let_def)

lemma lock_reaches_loop:
  assumes "node_ready (lock_node lk)" "length p = 32"
    "mpAPI lk \<or> 0x91 \<in> set (node_supportedCCs (lock_force (lock_node lk)))"
  shows "sendCustom ev lk (PBuffer p) (Some mid) (Some count) hist =
     (let lk' = lk\<lparr>lock_node := lock_force (lock_node lk), mpAPI := True\<rparr>
      in case send_frames ev (lock_nodeId lk, mid, p) (clamp_count count) hist of
           (Inl err, h) \<Rightarrow> (Inl err, lk', h)
         | (Inr results, h) \<Rightarrow>
             (Inr \<lparr>res_nodeId = Fin (of_nat (lock_nodeId lk)), res_count = clamp_count count,
                   res_vendorPayloadHex = toHex p, res_manufacturerId = mid,
                   res_results = results\<rparr>, lk', h))"
proof -
  have api: "(mpAPI lk \<or> 0x91 \<in> set (node_supportedCCs (lock_force (lock_node lk)))) = True"
    using assms(3) by simp
  show ?thesis
    unfolding sendCustom_def Let_def api using assms(1,2)
    by (simp split: prod.splits sum.splits)
qed

lemma lock_succeeds:
  assumes "node_ready (lock_node lk)" "length p = 32"
    "mpAPI lk \<or> 0x91 \<in> set (node_supportedCCs (lock_force (lock_node lk)))"
    "\<forall>h f. \<exists>r. sendData ev h f = Inr r" "count \<noteq> NaN"
  shows "\<exists>k res lk'. clamp_count count = Fin k \<and> 1 \<le> nat \<lceil>k\<rceil> \<and> nat \<lceil>k\<rceil> \<le> 100 \<and>
       sendCustom ev lk (PBuffer p) (Some mid) (Some count) hist =
         (Inr res, lk', hist @ replicate (nat \<lceil>k\<rceil>) (lock_nodeId lk, mid, p)) \<and>
       res_count res = Fin k \<and> length (res_results res) = nat \<lceil>k\<rceil>"
proof -
  from clamp_count_frames [OF assms(5)] obtain k where
    k: "clamp_count count = Fin k" "1 \<le> nat \<lceil>k\<rceil>" "nat \<lceil>k\<rceil> \<le> 100" by blast
  from assms(4) have "\<forall>h. \<exists>r. sendData ev h (lock_nodeId lk, mid, p) = Inr r" by blast
  from send_frames_succeeds [OF this, of k hist] obtain rs where
    rs: "send_frames ev (lock_nodeId lk, mid, p) (Fin k) hist =
           (Inr rs, hist @ replicate (nat \<lceil>k\<rceil>) (lock_nodeId lk, mid, p))"
        "length rs = nat \<lceil>k\<rceil>" by blast
  show ?thesis
    using k rs by (simp add: lock_reaches_loop [OF assms(1-3)] Let_def)
qed

lemma lock_fails_at:
  assumes "node_ready (lock_node lk)" "length p = 32"
    "mpAPI lk \<or> 0x91 \<in> set (node_supportedCCs (lock_force (lock_node lk)))"
    "clamp_count count = Fin k" "of_nat n < k"
    "\<forall>j<n. \<exists>r. sendData ev (hist @ replicate j (lock_nodeId lk, mid, p)) (lock_nodeId lk, mid, p) = Inr r"
    "sendData ev (hist @ replicate n (lock_nodeId lk, mid, p)) (lock_nodeId lk, mid, p) = Inl err"
  shows "\<exists>lk'. sendCustom ev lk (PBuffer p) (Some mid) (Some count) hist =
           (Inl err, lk', hist @ replicate (Suc n) (lock_nodeId lk, mid, p))"
  using send_frames_fails_at [OF assms(6,7,5)] assms(4)
  by (simp add: lock_reaches_loop [OF assms(1-3)] Let_def)

lemma example_payload_length: "length example_payload = 32"
  unfolding example_payload_def example_payloadHex_def by code_simp

lemma example_env_sends: "\<forall>h f. \<exists>r. sendData example_env h f = Inr r"
  by (simp add: example_env_def)

lemma ready_client_node:
  "driver ready_client \<and> driverReady ready_client \<and>
   nodes_get (nodes ready_client) (Fin 2) = Some (forceManufacturerProprietarySupport example_node) \<and>
   node_ready (forceManufacturerProprietarySupport example_node) \<and>
   has_ccMP (forceManufacturerProprietarySupport (forceManufacturerProprietarySupport example_node))"
  by (simp add: ready_client_def example_node_def forceManufacturerProprietarySupport_def has_ccMP_def)

text \<open>A count taken from a socket request is never \<^verbatim>\<open>NaN\<close>.\<close>

lemma numericCount_not_NaN: "numericCount rt v \<noteq> Inr NaN"
  by (simp add: numericCount_def integer_or_not_NaN)

text \<open>
  On whole numbers the two comparisons clamp: in both send operations, for every count
  that is a number, between 1 and 100 frames are attempted, and when no frame fails
  exactly that many are sent and the call returns its result; an integer count \<open>z\<close>
  becomes \<open>max 1 (min 100 z)\<close>, so the counts -5, 0, 1, 100, 101, 1000 give
  1, 1, 1, 100, 100, 100 frames.
\<close>

lemma whole_counts_clamped:
  assumes "count \<noteq> NaN" and "\<forall>h f. \<exists>r. sendData ev h f = Inr r" and "length p = 32"
  shows "\<exists>k. clamp_count count = Fin k \<and> 1 \<le> nat \<lceil>k\<rceil> \<and> nat \<lceil>k\<rceil> \<le> 100 \<and>
     (\<forall>z. count = Fin (of_int z) \<longrightarrow> k = of_int (max 1 (min 100 z))) \<and>
     (driver c \<and> driverReady c \<and> nodes_get (nodes c) nid = Some node \<and> node_ready node \<and>
        has_ccMP (forceManufacturerProprietarySupport node) \<longrightarrow>
      (\<exists>res c'. sendManufacturerProprietaryCustom ev c (Some nid) p (Some mid) (Some count) = (Inr res, c') \<and>
         res_count res = Fin k \<and> length (res_results res) = nat \<lceil>k\<rceil> \<and>
         sent c' = sent c @ replicate (nat \<lceil>k\<rceil>) (node_id node, mid, p))) \<and>
     (node_ready (lock_node lk) \<and>
        (mpAPI lk \<or> 0x91 \<in> set (node_supportedCCs (lock_force (lock_node lk)))) \<longrightarrow>
      (\<exists>res lk'. sendCustom ev lk (PBuffer p) (Some mid) (Some count) hist =
           (Inr res, lk', hist @ replicate (nat \<lceil>k\<rceil>) (lock_nodeId lk, mid, p)) \<and>
         res_count res = Fin k \<and> length (res_results res) = nat \<lceil>k\<rceil>))"
proof -
  from clamp_count_frames [OF assms(1)] obtain k where
    k: "clamp_count count = Fin k" "1 \<le> nat \<lceil>k\<rceil>" "nat \<lceil>k\<rceil> \<le> 100" by blast
  have ints: "\<forall>z. count = Fin (of_int z) \<longrightarrow> k = of_int (max 1 (min 100 z))"
    using k(1) by (auto simp: clamp_count_int)
  have sender: "\<exists>res c'. sendManufacturerProprietaryCustom ev c (Some nid) p (Some mid) (Some count) = (Inr res, c') \<and>
         res_count res = Fin k \<and> length (res_results res) = nat \<lceil>k\<rceil> \<and>
         sent c' = sent c @ replicate (nat \<lceil>k\<rceil>) (node_id node, mid, p)"
    if "driver c" "driverReady c" "nodes_get (nodes c) nid = Some node" "node_ready node"
       "has_ccMP (forceManufacturerProprietarySupport node)"
    using sender_succeeds [OF that(1,2) assms(3) that(3,4,5) assms(2,1), of mid] k(1) by auto
  have lock: "\<exists>res lk'. sendCustom ev lk (PBuffer p) (Some mid) (Some count) hist =
           (Inr res, lk', hist @ replicate (nat \<lceil>k\<rceil>) (lock_nodeId lk, mid, p)) \<and>
         res_count res = Fin k \<and> length (res_results res) = nat \<lceil>k\<rceil>"
    if "node_ready (lock_node lk)"
       "mpAPI lk \<or> 0x91 \<in> set (node_supportedCCs (lock_force (lock_node lk)))"
    using lock_succeeds [OF that(1) assms(3) that(2) assms(2,1), of mid hist] k(1) by auto
  from k ints sender lock show ?thesis by blast
qed

lemma whole_counts_clamped_examples:
  "length (sent (snd (sendManufacturerProprietaryCustom example_env ready_client (Some (Fin 2))
      example_payload (Some (Fin 0)) (Some (Fin (- 5)))))) = 1 \<and>
   length (sent (snd (sendManufacturerProprietaryCustom example_env ready_client (Some (Fin 2))
      example_payload (Some (Fin 0)) (Some (Fin 0))))) = 1 \<and>
   length (sent (snd (sendManufacturerProprietaryCustom example_env ready_client (Some (Fin 2))
      example_payload (Some (Fin 0)) (Some (Fin 1))))) = 1 \<and>
   length (sent (snd (sendManufacturerProprietaryCustom example_env ready_client (Some (Fin 2))
      example_payload (Some (Fin 0)) (Some (Fin 100))))) = 100 \<and>
   length (sent (snd (sendManufacturerProprietaryCustom example_env ready_client (Some (Fin 2))
      example_payload (Some (Fin 0)) (Some (Fin 101))))) = 100 \<and>
   length (sent (snd (sendManufacturerProprietaryCustom example_env ready_client (Some (Fin 2))
      example_payload (Some (Fin 0)) (Some (Fin 1000))))) = 100 \<and>
   length (snd (snd (sendCustom example_env example_lock (PBuffer example_payload)
      (Some (Fin 0)) (Some (Fin 1000)) []))) = 100"
proof -
  have lock_ok: "node_ready (lock_node example_lock) \<and>
      (mpAPI example_lock \<or> 0x91 \<in> set (node_supportedCCs (lock_force (lock_node example_lock))))"
    by (simp add: example_lock_def lock_force_def)
  have frames:
    "length (sent (snd (sendManufacturerProprietaryCustom example_env ready_client (Some (Fin 2))
        example_payload (Some (Fin 0)) (Some (Fin (of_int z)))))) = nat (max 1 (min 100 z)) \<and>
     length (snd (snd (sendCustom example_env example_lock (PBuffer example_payload)
        (Some (Fin 0)) (Some (Fin (of_int z))) []))) = nat (max 1 (min 100 z))" for z
  proof -
    have "Fin (of_int z) \<noteq> NaN" by simp
    from whole_counts_clamped [OF this example_env_sends example_payload_length,
        of ready_client "Fin 2" "forceManufacturerProprietarySupport example_node" "Fin 0"
           example_lock "[]"]
    obtain k :: rat where k: "nat \<lceil>k\<rceil> \<le> 100" "k = of_int (max 1 (min 100 z))"
      and s: "\<exists>res c'. sendManufacturerProprietaryCustom example_env ready_client (Some (Fin 2))
                example_payload (Some (Fin 0)) (Some (Fin (of_int z))) = (Inr res, c') \<and>
              sent c' = sent ready_client @ replicate (nat \<lceil>k\<rceil>)
                (node_id (forceManufacturerProprietarySupport example_node), Fin 0, example_payload)"
      and l: "\<exists>res lk'. sendCustom example_env example_lock (PBuffer example_payload)
                (Some (Fin 0)) (Some (Fin (of_int z))) [] =
              (Inr res, lk', [] @ replicate (nat \<lceil>k\<rceil>) (lock_nodeId example_lock, Fin 0, example_payload))"
      using ready_client_node lock_ok by blast
    have "nat \<lceil>k\<rceil> = nat (max 1 (min 100 z))" unfolding k(2) by (simp only: ceiling_of_int)
    with s l show ?thesis by (auto simp: ready_client_def)
  qed
  from frames [of "- 5"] frames [of 0] frames [of 1] frames [of 100] frames [of 101] frames [of 1000]
  show ?thesis by simp
qed

text \<open>
  C6. The claim: every count is clamped into the range from 1 to 100. The code tests
  \<^verbatim>\<open>count <= 0\<close> and \<^verbatim>\<open>count > 100\<close> and nothing else, so a count that is not a whole
  number passes as it is: a \<^verbatim>\<open>SEND_COMMAND\<close> with count 0.5 sends one frame and is
  answered with the count 0.5, one with count 2.5 sends three frames and is answered
  with the count 2.5, and a direct call with the count \<^verbatim>\<open>NaN\<close> sends no frame and
  returns a result.
\<close>

theorem fractional_count_not_clamped:
  "numericCount example_env (JNum (Fin (1 / 2))) = Inr (Fin (1 / 2)) \<and>
   clamp_count (Fin (1 / 2)) = Fin (1 / 2) \<and>
   fst (handleSendCommand example_env ready_system
      (JObj [(''type'', JStr ''SEND_COMMAND''), (''payloadHex'', JStr example_payloadHex),
             (''count'', JNum (Fin (1 / 2)))]) (JStr ''req-7'')) =
     COMMAND_RESULT
       \<lparr>res_nodeId = Fin 2, res_count = Fin (1 / 2), res_vendorPayloadHex = example_payloadHex,
        res_manufacturerId = Fin 0, res_results = [(1, JUndefined)]\<rparr> (JStr ''req-7'') \<and>
   fst (handleSendCommand example_env ready_system
      (JObj [(''type'', JStr ''SEND_COMMAND''), (''payloadHex'', JStr example_payloadHex),
             (''count'', JNum (Fin (5 / 2)))]) (JStr ''req-8'')) =
     COMMAND_RESULT
       \<lparr>res_nodeId = Fin 2, res_count = Fin (5 / 2), res_vendorPayloadHex = example_payloadHex,
        res_manufacturerId = Fin 0,
        res_results = [(1, JUndefined), (2, JUndefined), (3, JUndefined)]\<rparr> (JStr ''req-8'') \<and>
   sendManufacturerProprietaryCustom example_env ready_client (Some (Fin 2)) example_payload
      (Some (Fin 0)) (Some NaN) =
     (Inr \<lparr>res_nodeId = Fin 2, res_count = NaN, res_vendorPayloadHex = example_payloadHex,
           res_manufacturerId = Fin 0, res_results = []\<rparr>, ready_client) \<and>
   fst (sendCustom example_env example_lock (PBuffer example_payload) (Some (Fin 0)) (Some NaN) []) =
     Inr \<lparr>res_nodeId = Fin 2, res_count = NaN, res_vendorPayloadHex = example_payloadHex,
          res_manufacturerId = Fin 0, res_results = []\<rparr>"
  by code_simp

text \<open>
  C7. The frames are sent one after the other, and the first frame whose send fails
  ends the call with that frame's error: when \<open>n\<close> frames went out and frame \<open>n + 1\<close>
  fails, \<open>n + 1\<close> frames were attempted, none after it, and the call returns the error
  alone, without the results of the frames before.
\<close>

theorem frame_failure_aborts_send:
  assumes "length p = 32" and "clamp_count count = Fin k" and "of_nat n < k"
  shows
    "(driver c \<and> driverReady c \<and> nodes_get (nodes c) nid = Some node \<and> node_ready node \<and>
        has_ccMP (forceManufacturerProprietarySupport node) \<and>
        (\<forall>j<n. \<exists>r. sendData ev (sent c @ replicate j (node_id node, mid, p)) (node_id node, mid, p) = Inr r) \<and>
        sendData ev (sent c @ replicate n (node_id node, mid, p)) (node_id node, mid, p) = Inl err \<longrightarrow>
      (\<exists>c'. sendManufacturerProprietaryCustom ev c (Some nid) p (Some mid) (Some count) = (Inl err, c') \<and>
         sent c' = sent c @ replicate (Suc n) (node_id node, mid, p))) \<and>
     (node_ready (lock_node lk) \<and>
        (mpAPI lk \<or> 0x91 \<in> set (node_supportedCCs (lock_force (lock_node lk)))) \<and>
        (\<forall>j<n. \<exists>r. sendData ev (hist @ replicate j (lock_nodeId lk, mid, p)) (lock_nodeId lk, mid, p) = Inr r) \<and>
        sendData ev (hist @ replicate n (lock_nodeId lk, mid, p)) (lock_nodeId lk, mid, p) = Inl err \<longrightarrow>
      (\<exists>lk'. sendCustom ev lk (PBuffer p) (Some mid) (Some count) hist =
           (Inl err, lk', hist @ replicate (Suc n) (lock_nodeId lk, mid, p))))"
proof (intro conjI impI)
  assume a: "driver c \<and> driverReady c \<and> nodes_get (nodes c) nid = Some node \<and> node_ready node \<and>
        has_ccMP (forceManufacturerProprietarySupport node) \<and>
        (\<forall>j<n. \<exists>r. sendData ev (sent c @ replicate j (node_id node, mid, p)) (node_id node, mid, p) = Inr r) \<and>
        sendData ev (sent c @ replicate n (node_id node, mid, p)) (node_id node, mid, p) = Inl err"
  then show "\<exists>c'. sendManufacturerProprietaryCustom ev c (Some nid) p (Some mid) (Some count) = (Inl err, c') \<and>
         sent c' = sent c @ replicate (Suc n) (node_id node, mid, p)"
    using sender_fails_at [of c p nid node count k n ev mid err] assms by blast
next
  assume a: "node_ready (lock_node lk) \<and>
        (mpAPI lk \<or> 0x91 \<in> set (node_supportedCCs (lock_force (lock_node lk)))) \<and>
        (\<forall>j<n. \<exists>r. sendData ev (hist @ replicate j (lock_nodeId lk, mid, p)) (lock_nodeId lk, mid, p) = Inr r) \<and>
        sendData ev (hist @ replicate n (lock_nodeId lk, mid, p)) (lock_nodeId lk, mid, p) = Inl err"
  then show "\<exists>lk'. sendCustom ev lk (PBuffer p) (Some mid) (Some count) hist =
           (Inl err, lk', hist @ replicate (Suc n) (lock_nodeId lk, mid, p))"
    using lock_fails_at [of lk p count k n ev hist mid err] assms by blast
qed

theorem frame_failure_aborts_send_witness:
  "fst (sendManufacturerProprietaryCustom flaky_env ready_client (Some (Fin 2))
      example_payload (Some (Fin 0)) (Some (Fin 5))) = Inl (Msg ''timeout'') \<and>
   length (sent (snd (sendManufacturerProprietaryCustom flaky_env ready_client (Some (Fin 2))
      example_payload (Some (Fin 0)) (Some (Fin 5))))) = 3 \<and>
   fst (sendCustom flaky_env example_lock (PBuffer example_payload) (Some (Fin 0)) (Some (Fin 5)) []) =
     Inl (Msg ''timeout'') \<and>
   length (snd (snd (sendCustom flaky_env example_lock (PBuffer example_payload)
      (Some (Fin 0)) (Some (Fin 5)) []))) = 3"
proof -
  have lock_ok: "node_ready (lock_node example_lock) \<and>
      (mpAPI example_lock \<or> 0x91 \<in> set (node_supportedCCs (lock_force (lock_node example_lock))))"
    by (simp add: example_lock_def lock_force_def)
  have c: "clamp_count (Fin 5) = Fin 5" by (simp add: clamp_count_def)
  have n: "of_nat 2 < (5::rat)" by simp
  have ok: "\<forall>j<2. \<exists>r. sendData flaky_env (h @ replicate j fr) fr = Inr r" if "h = []" for h fr
    using that by (simp add: flaky_env_def example_env_def)
  have bad: "sendData flaky_env (h @ replicate 2 fr) fr = Inl (Msg ''timeout'')" if "h = []" for h fr
    using that by (simp add: flaky_env_def example_env_def)
  have s0: "sent ready_client = []" by (simp add: ready_client_def)
  from frame_failure_aborts_send [OF example_payload_length c n,
      of ready_client "Fin 2" "forceManufacturerProprietarySupport example_node" flaky_env "Fin 0"
         "Msg ''timeout''" example_lock "[]"]
    ready_client_node lock_ok ok [OF s0] bad [OF s0] ok [OF refl] bad [OF refl]
  obtain c' lk' where
    "sendManufacturerProprietaryCustom flaky_env ready_client (Some (Fin 2))
        example_payload (Some (Fin 0)) (Some (Fin 5)) = (Inl (Msg ''timeout''), c')"
    "sent c' = sent ready_client @ replicate (Suc 2)
        (node_id (forceManufacturerProprietarySupport example_node), Fin 0, example_payload)"
    "sendCustom flaky_env example_lock (PBuffer example_payload) (Some (Fin 0)) (Some (Fin 5)) [] =
        (Inl (Msg ''timeout''), lk', [] @ replicate (Suc 2) (lock_nodeId example_lock, Fin 0, example_payload))"
    by blast
  then show ?thesis by (simp add: s0)
qed

subsection \<open>The command interceptor\<close>

text \<open>
  C9. Once the interceptor is attached to a device (its handler is a function and was
  not wrapped before), an inbound command whose class identifier is 0x91 publishes
  exactly one event, built from the command, and does nothing of what the original
  handler would do; a well-formed command of any other class is handed to the
  original handler as it is. Attaching a second time changes nothing.
\<close>

theorem vendor_commands_intercepted:
  assumes "handleCommand (lock_node lk) = Some originalHandleCommand"
    and "\<not> mpHandlerAttached (lock_node lk)"
  shows "mpHandlerAttached (lock_node (setupManufacturerProprietaryCommandHandler lk)) \<and>
     (ccId c = 0x91 \<longrightarrow>
        receive (setupManufacturerProprietaryCommandHandler lk) c =
          [manufacturerProprietaryCommand (commandData_of (lock_nodeId lk) c)]) \<and>
     (ccId c \<noteq> 0x91 \<and> wf_command c \<longrightarrow>
        receive (setupManufacturerProprietaryCommandHandler lk) c = originalHandleCommand c) \<and>
     setupManufacturerProprietaryCommandHandler (setupManufacturerProprietaryCommandHandler lk) =
       setupManufacturerProprietaryCommandHandler lk"
  using assms
  by (auto simp: setupManufacturerProprietaryCommandHandler_def receive_def
      wrapped_handleCommand_def isManufacturerProprietary_def wf_command_def split: if_splits)

theorem vendor_commands_intercepted_witness:
  "receive (setupManufacturerProprietaryCommandHandler example_lock) vendor_command =
     [manufacturerProprietaryCommand
        \<lparr>cd_nodeId = 2, cd_manufacturerId = JNum (Fin 0), cd_payload = Some [1, 2, 3],
         cd_payloadLength = 3, cd_endpointIndex = 0\<rparr>] \<and>
   receive (setupManufacturerProprietaryCommandHandler example_lock) basic_command =
     [Effect basic_command] \<and>
   mpHandlerAttached (lock_node (setupManufacturerProprietaryCommandHandler example_lock))"
proof -
  have h: "handleCommand (lock_node example_lock) = Some (\<lambda>c. [Effect c])"
    by (simp add: example_lock_def)
  have a: "\<not> mpHandlerAttached (lock_node example_lock)"
    by (simp add: example_lock_def)
  have v: "ccId vendor_command = 0x91" by (simp add: vendor_command_def)
  have b: "ccId basic_command \<noteq> 0x91 \<and> wf_command basic_command"
    by (simp add: basic_command_def wf_command_def)
  from vendor_commands_intercepted [OF h a, of vendor_command] v
  have 1: "receive (setupManufacturerProprietaryCommandHandler example_lock) vendor_command =
          [manufacturerProprietaryCommand (commandData_of (lock_nodeId example_lock) vendor_command)]"
    and 3: "mpHandlerAttached (lock_node (setupManufacturerProprietaryCommandHandler example_lock))"
    by blast+
  from vendor_commands_intercepted [OF h a, of basic_command] b
  have 2: "receive (setupManufacturerProprietaryCommandHandler example_lock) basic_command =
          [Effect basic_command]"
    by blast
  from 1 2 3 show ?thesis
    by (simp add: commandData_of_def vendor_command_def example_lock_def)
qed

subsection \<open>Routing and the lifecycle gate\<close>

text \<open>A message that parses to anything but \<^verbatim>\<open>null\<close> is answered, and the handler returns.\<close>

lemma handleMessage_answers:
  assumes "data \<noteq> JNull" "data \<noteq> JUndefined"
  shows "\<exists>r s'. handleMessage ev s is_open (Parsed data) = (None, sendToClient is_open r, s')"
proof -
  from assms obtain ty where ty: "getprop data ''type'' = Inr ty"
    by (cases data) auto
  from assms obtain rq where rq: "getprop data ''requestId'' = Inr rq"
    by (cases data) auto
  show ?thesis
    by (cases "dispatch ev s ty data (getfield data ''requestId'')")
       (auto simp: handleMessage_def handleMessage_try_def JSON_parse_def ty rq)
qed

lemma handleMessage_without_type:
  assumes "getprop data ''type'' = Inr ty" "\<not> truthy ty"
  shows "handleMessage ev s is_open (Parsed data) =
    (None, sendToClient is_open (ERROR (Msg ''Message must have a 'type' field'') (getfield data ''requestId'')), s)"
  using assms by (simp add: handleMessage_def handleMessage_try_def JSON_parse_def)

text \<open>
  C5. The claim: every error in handling a message, a text that is not JSON included,
  reaches the client as an \<^verbatim>\<open>ERROR\<close> response. The code on a text that is not JSON, and
  on the text \<^verbatim>\<open>null\<close>: the \<^verbatim>\<open>catch\<close> block parses the text again (or reads a property of
  \<^verbatim>\<open>null\<close>), which throws again, so nothing is written to the socket and the handler's
  promise is rejected with nobody to handle it.
\<close>

theorem handleMessage_unparseable:
  "handleMessage ev s is_open Malformed = (Some SyntaxError, [], s) \<and>
   handleMessage ev s is_open (Parsed JNull) = (Some TypeError, [], s)"
  by (simp add: handleMessage_def handleMessage_try_def JSON_parse_def)

lemma not_ready_cases:
  "\<not> ws_ready s \<Longrightarrow>
   deref s (ws_zwaveClient s) = None \<or> (\<exists>c. deref s (ws_zwaveClient s) = Some c \<and> \<not> driverReady c)"
  by (auto simp: ws_ready_def split: option.splits)

text \<open>
  C8, as amended. While the driver is not ready, \<^verbatim>\<open>GET_NODES\<close> answers \<^verbatim>\<open>NODES\<close> with an
  empty array, and the other provisioning and device operations answer with the error
  "Driver not ready" and leave the state as it is; adding an entry checks for the DSK
  first, so a request to add without a DSK answers "DSK is required" instead.
\<close>

theorem not_ready_responses:
  assumes "\<not> ws_ready s"
  shows "handleGetNodes s rid = (NODES [] rid, s) \<and>
     handleGetProvisioningEntries s rid = (ERROR (Msg ''Driver not ready'') rid, s) \<and>
     handleGetProvisioningEntry s data rid = (ERROR (Msg ''Driver not ready'') rid, s) \<and>
     handleUpdateProvisioningEntryStatus s data rid = (ERROR (Msg ''Driver not ready'') rid, s) \<and>
     handleDeleteProvisioningEntry s data rid = (ERROR (Msg ''Driver not ready'') rid, s) \<and>
     handleGetNode ev s data rid = (ERROR (Msg ''Driver not ready'') rid, s) \<and>
     handleSendCommand ev s data rid = (ERROR (Msg ''Driver not ready'') rid, s) \<and>
     handleAddProvisioningEntry s data rid =
       (ERROR (Msg (if truthy (getfield (js_or (getfield data ''entry'') data) ''dsk'')
                    then ''Driver not ready'' else ''DSK is required'')) rid, s)"
  using not_ready_cases [OF assms]
  by (auto simp: handleGetNodes_def handleGetProvisioningEntries_def handleGetProvisioningEntry_def
      handleUpdateProvisioningEntryStatus_def handleDeleteProvisioningEntry_def handleGetNode_def
      handleSendCommand_def handleAddProvisioningEntry_def Let_def)

theorem not_ready_responses_witness:
  "handleGetNodes initial_system (JStr ''req-1'') = (NODES [] (JStr ''req-1''), initial_system) \<and>
   handleGetProvisioningEntries initial_system (JStr ''req-1'') =
     (ERROR (Msg ''Driver not ready'') (JStr ''req-1''), initial_system) \<and>
   handleGetNode example_env initial_system (JObj [(''type'', JStr ''GET_NODE''), (''nodeId'', JNum (Fin 2))])
       (JStr ''req-1'') =
     (ERROR (Msg ''Driver not ready'') (JStr ''req-1''), initial_system) \<and>
   handleAddProvisioningEntry initial_system
       (JObj [(''type'', JStr ''ADD_PROVISIONING_ENTRY''), (''dsk'', JStr ''12345'')]) (JStr ''req-1'') =
     (ERROR (Msg ''Driver not ready'') (JStr ''req-1''), initial_system)"
proof -
  have n: "\<not> ws_ready initial_system"
    by (simp add: ws_ready_def deref_def initial_system_def)
  from not_ready_responses [OF n, of "JStr ''req-1''"
      "JObj [(''type'', JStr ''GET_NODE''), (''nodeId'', JNum (Fin 2))]" example_env]
    not_ready_responses [OF n, of "JStr ''req-1''"
      "JObj [(''type'', JStr ''ADD_PROVISIONING_ENTRY''), (''dsk'', JStr ''12345'')]" example_env]
  show ?thesis by (simp add: js_or_def)
qed

text \<open>
  C8 as stated fails on a request to add an entry that carries no DSK: issued before
  any start, it is answered with "DSK is required", not with the not-ready error.
\<close>

theorem add_without_dsk_counterexample:
  "\<not> ws_ready initial_system \<and>
   handleAddProvisioningEntry initial_system
       (JObj [(''type'', JStr ''ADD_PROVISIONING_ENTRY''), (''name'', JStr ''LOCK'')]) (JStr ''req-1'') =
     (ERROR (Msg ''DSK is required'') (JStr ''req-1''), initial_system)"
  by (simp add: ws_ready_def deref_def initial_system_def handleAddProvisioningEntry_def js_or_def)

lemma ws_ready_lifecycle: "ws_ready s \<longleftrightarrow> lifecycle_of s = Ready"
  by (auto simp: ws_ready_def lifecycle_of_def split: option.splits)

text \<open>
  What the guard of \<^verbatim>\<open>handleStart\<close> does in general. A \<^verbatim>\<open>START\<close> issued while the driver
  is \<open>Ready\<close> fails with "Driver is already started" and leaves the whole state, the
  connection included, untouched. A \<^verbatim>\<open>START\<close> issued while \<open>Starting\<close> passes the guard:
  where the plugin can start a driver (through \<^verbatim>\<open>initializeDriver\<close> on the same client,
  or with both sets of keys), the client in flight is closed and a new client object is
  created.
\<close>

lemma handleStart_guard:
  "(lifecycle_of s = Ready \<longrightarrow>
      handleStart ev s data rid = (ERROR (Msg ''Driver is already started'') rid, s)) \<and>
   (lifecycle_of s = Starting \<and> ws_zwaveClient s = Some a \<and>
      (if ws_initializeDriver s then srv_zwaveClient s = Some a
       else ws_securityKeys s \<and> ws_securityKeysLongRange s) \<longrightarrow>
      a < length (heap s) \<and>
      heap (snd (handleStart ev s data rid)) ! a = close (heap s ! a) \<and>
      destroyed (heap (snd (handleStart ev s data rid)) ! a) \<and>
      length (heap (snd (handleStart ev s data rid))) = Suc (length (heap s)))"
proof (rule conjI; rule impI)
  assume "lifecycle_of s = Ready"
  then show "handleStart ev s data rid = (ERROR (Msg ''Driver is already started'') rid, s)"
    by (simp add: handleStart_def ws_ready_lifecycle)
next
  assume a: "lifecycle_of s = Starting \<and> ws_zwaveClient s = Some a \<and>
      (if ws_initializeDriver s then srv_zwaveClient s = Some a
       else ws_securityKeys s \<and> ws_securityKeysLongRange s)"
  then have nr: "\<not> ws_ready s" by (simp add: ws_ready_lifecycle)
  from a have d: "a < length (heap s)" "driver (heap s ! a)"
    by (auto simp: lifecycle_of_def deref_def split: option.splits if_splits)
  then have dr: "deref s (Some a) = Some (heap s ! a)" by (simp add: deref_def)
  let ?s' = "snd (handleStart ev s data rid)"
  have "heap ?s' ! a = close (heap s ! a) \<and> length (heap ?s') = Suc (length (heap s))"
  proof (cases "ws_initializeDriver s")
    case True
    with a have srv: "srv_zwaveClient s = Some a" by simp
    show ?thesis
      using nr True srv d dr a
      by (auto simp: handleStart_def initializeDriver_def connect_def Let_def store_def
          nth_append split: start_outcome.splits)
  next
    case False
    with a have keys: "ws_securityKeys s" "ws_securityKeysLongRange s" by simp_all
    show ?thesis
      using nr False keys d dr a
      by (auto simp: handleStart_def connect_def Let_def store_def
          nth_append split: start_outcome.splits)
  qed
  moreover have "destroyed (close (heap s ! a))" using d by (simp add: close_def)
  ultimately show "a < length (heap s) \<and>
      heap ?s' ! a = close (heap s ! a) \<and>
      destroyed (heap ?s' ! a) \<and>
      length (heap ?s') = Suc (length (heap s))"
    using d by simp
qed

text \<open>
  C4. The claim: a \<^verbatim>\<open>START\<close> issued while the driver is \<open>Starting\<close> or \<open>Ready\<close> fails
  with the error that it is already started and leaves the connection untouched. The
  code while \<open>Ready\<close> does that. While \<open>Starting\<close>, after a first \<^verbatim>\<open>START_SUCCESS\<close> and
  before the driver's ready event, the guard, which tests \<^verbatim>\<open>driverReady\<close> only, lets a
  second \<^verbatim>\<open>START\<close> through: it is answered with \<^verbatim>\<open>START_SUCCESS\<close>, the first client is
  destroyed and the plugin holds a second one.
\<close>

theorem start_while_starting_restarts:
  "lifecycle_of ready_system = Ready \<and>
   handleStart example_env ready_system (JObj [(''type'', JStr ''START'')]) (JStr ''req-2'') =
     (ERROR (Msg ''Driver is already started'') (JStr ''req-2''), ready_system) \<and>
   lifecycle_of starting_system = Starting \<and>
   ws_zwaveClient starting_system = Some 0 \<and>
   fst (handleStart example_env starting_system (JObj [(''type'', JStr ''START'')]) (JStr ''req-2'')) =
     START_SUCCESS default_port (JStr ''req-2'') \<and>
   destroyed (heap (snd (handleStart example_env starting_system
     (JObj [(''type'', JStr ''START'')]) (JStr ''req-2''))) ! 0) \<and>
   ws_zwaveClient (snd (handleStart example_env starting_system
     (JObj [(''type'', JStr ''START'')]) (JStr ''req-2''))) = Some 1"
  by code_simp

theorem start_while_starting_restarts_witness:
  "lifecycle_of starting_system = Starting \<and>
   fst (handleStart example_env starting_system (JObj [(''type'', JStr ''START'')]) (JStr ''req-2'')) \<noteq>
     ERROR (Msg ''Driver is already started'') (JStr ''req-2'') \<and>
   lifecycle_of (snd (handleStart example_env starting_system
     (JObj [(''type'', JStr ''START'')]) (JStr ''req-2''))) = Starting \<and>
   deref (snd (handleStart example_env starting_system
     (JObj [(''type'', JStr ''START'')]) (JStr ''req-2''))) (Some 0) \<noteq>
     deref starting_system (Some 0)"
proof -
  let ?s = "snd (handleStart example_env starting_system (JObj [(''type'', JStr ''START'')]) (JStr ''req-2''))"
  have 1: "lifecycle_of ?s = Starting" by code_simp
  have 2: "\<not> destroyed (heap starting_system ! 0)" by code_simp
  have 3: "length (heap ?s) = 2" "length (heap starting_system) = 1" by code_simp+
  from start_while_starting_restarts have d: "destroyed (heap ?s ! 0)" by blast
  from d 2 3 have "deref ?s (Some 0) \<noteq> deref starting_system (Some 0)"
    by (auto simp: deref_def)
  with start_while_starting_restarts 1 show ?thesis by simp
qed

subsection \<open>The target of a SEND_COMMAND\<close>

lemma nodes_get_id:
  "nodes_get ns (Fin (of_nat k)) = Some node \<Longrightarrow> node_id node = k"
  by (auto simp: find_Some_iff)

lemma deref_store:
  "deref s r = Some c \<Longrightarrow> deref (store s r c') r = Some c'"
  by (cases r) (auto simp: deref_def store_def split: if_splits)

lemma ws_zwaveClient_store: "ws_zwaveClient (store s r c) = ws_zwaveClient s"
  by (cases r) (simp_all add: store_def)

lemma numericNodeId_default:
  "\<not> isInteger v \<Longrightarrow> Number rt v = Inr n \<Longrightarrow> \<not> num_truthy n \<Longrightarrow> numericNodeId rt v = Inr (Fin 2)"
  by (simp add: numericNodeId_def integer_or_def)

lemma numericNodeId_integer:
  "isInteger v \<Longrightarrow> numericNodeId rt v = Number rt v"
  by (simp add: numericNodeId_def integer_or_def)

text \<open>The conversions of a request's fields throw exactly where the conversion to a string does.\<close>

lemma Number_converts: "(\<exists>n. Number rt v = Inr n) \<longleftrightarrow> \<not> toString_throws v"
  by (cases v) auto

lemma integer_or_converts: "(\<exists>n. integer_or rt v d = Inr n) \<longleftrightarrow> \<not> toString_throws v"
proof (cases "toString_throws v")
  case True
  then have "\<not> isInteger v" by (cases v) auto
  moreover from True have "Number rt v = Inl TypeError" by (cases v) auto
  ultimately show ?thesis using True by (simp add: integer_or_def)
next
  case False
  then obtain n where "Number rt v = Inr n" using Number_converts by blast
  with False show ?thesis by (simp add: integer_or_def)
qed

lemma numericManufacturerId_converts:
  "(\<exists>n. numericManufacturerId rt v = Inr n) \<longleftrightarrow> \<not> toString_throws v"
  by (cases v) (auto simp: numericManufacturerId_def js_parseInt_def)

lemma conversion_errors:
  "numericNodeId rt v = Inl err \<Longrightarrow> err = TypeError"
  "numericManufacturerId rt v = Inl err \<Longrightarrow> err = TypeError"
  "numericCount rt v = Inl err \<Longrightarrow> err = TypeError"
  by (cases v; auto simp: numericNodeId_def numericCount_def integer_or_def
        numericManufacturerId_def js_parseInt_def split: if_splits sum.splits)+

text \<open>
  A field whose conversion throws has the request answered with the error, and nothing
  is sent.
\<close>

lemma handleSendCommand_conversion_error:
  assumes "deref s (ws_zwaveClient s) = Some c" and "driverReady c"
    and "getfield data ''payloadHex'' = JStr h" and "hexTo32ByteBuffer h = Inr p"
    and "toString_throws (getfield data ''nodeId'') \<or>
         toString_throws (getfield data ''manufacturerId'') \<or>
         toString_throws (getfield data ''count'')"
  shows "handleSendCommand ev s data rid = (ERROR TypeError rid, s)"
proof -
  let ?nid = "numericNodeId ev (getfield data ''nodeId'')"
  let ?mid = "numericManufacturerId ev (getfield data ''manufacturerId'')"
  let ?cnt = "numericCount ev (getfield data ''count'')"
  from hexTo32ByteBuffer_Inr [OF assms(4)] have h: "h \<noteq> []" by simp
  have unfold: "handleSendCommand ev s data rid =
     (case ?nid of
        Inl err \<Rightarrow> (ERROR (or_message err ''Failed to send custom Manufacturer Proprietary'') rid, s)
      | Inr nid \<Rightarrow>
     (case ?mid of
        Inl err \<Rightarrow> (ERROR (or_message err ''Failed to send custom Manufacturer Proprietary'') rid, s)
      | Inr mid \<Rightarrow>
     (case ?cnt of
        Inl err \<Rightarrow> (ERROR (or_message err ''Failed to send custom Manufacturer Proprietary'') rid, s)
      | Inr cnt \<Rightarrow>
     (case sendManufacturerProprietaryCustom ev c (Some nid) p (Some mid) (Some cnt) of
        (Inl err, c') \<Rightarrow>
          (ERROR (or_message err ''Failed to send custom Manufacturer Proprietary'') rid,
           store s (ws_zwaveClient s) c')
      | (Inr result, c') \<Rightarrow> (COMMAND_RESULT result rid, store s (ws_zwaveClient s) c')))))"
    using assms(1,2,3,4) h by (simp add: handleSendCommand_def Let_def)
  show ?thesis
  proof (cases ?nid)
    case (Inl err)
    with conversion_errors(1) [OF Inl] show ?thesis by (simp add: unfold)
  next
    case nid: (Inr n)
    then have n1: "\<not> toString_throws (getfield data ''nodeId'')"
      using integer_or_converts [of ev "getfield data ''nodeId''" 2] by (auto simp: numericNodeId_def)
    show ?thesis
    proof (cases ?mid)
      case (Inl err)
      with conversion_errors(2) [OF Inl] nid show ?thesis by (simp add: unfold)
    next
      case mid: (Inr m)
      then have n2: "\<not> toString_throws (getfield data ''manufacturerId'')"
        using numericManufacturerId_converts [of ev "getfield data ''manufacturerId''"] by auto
      show ?thesis
      proof (cases ?cnt)
        case (Inl err)
        with conversion_errors(3) [OF Inl] nid mid show ?thesis by (simp add: unfold)
      next
        case (Inr k)
        then have "\<not> toString_throws (getfield data ''count'')"
          using integer_or_converts [of ev "getfield data ''count''" 1] by (auto simp: numericCount_def)
        with n1 n2 assms(5) show ?thesis by simp
      qed
    qed
  qed
qed

text \<open>
  C10, as amended. In a \<^verbatim>\<open>SEND_COMMAND\<close> whose \<^verbatim>\<open>nodeId\<close> is not an integer number and
  is absent or converts to zero or to \<^verbatim>\<open>NaN\<close>, the command is sent to device 2 and
  answered with a \<^verbatim>\<open>COMMAND_RESULT\<close> for node 2 (the driver ready, the payload valid,
  \<^verbatim>\<open>manufacturerId\<close> and \<^verbatim>\<open>count\<close> converting, device 2 ready and answering): the
  request is not rejected for its \<^verbatim>\<open>nodeId\<close>. An integer \<^verbatim>\<open>nodeId\<close>, zero included, is
  taken as it is (lemma \<open>numericNodeId_integer\<close>), and a \<^verbatim>\<open>nodeId\<close> whose conversion
  throws is answered with the error (lemma \<open>handleSendCommand_conversion_error\<close>).
\<close>

theorem nodeId_defaults_to_2:
  assumes "deref s (ws_zwaveClient s) = Some c" and "driver c" and "driverReady c"
    and "getfield data ''payloadHex'' = JStr h" and "hexTo32ByteBuffer h = Inr p"
    and "\<not> isInteger (getfield data ''nodeId'')"
    and "Number ev (getfield data ''nodeId'') = Inr n" and "\<not> num_truthy n"
    and "\<not> toString_throws (getfield data ''manufacturerId'')"
    and "\<not> toString_throws (getfield data ''count'')"
    and "nodes_get (nodes c) (Fin 2) = Some node" and "node_ready node"
    and "has_ccMP (forceManufacturerProprietarySupport node)"
    and "\<forall>h f. \<exists>r. sendData ev h f = Inr r"
  shows "\<exists>res s' c' k mid. handleSendCommand ev s data rid = (COMMAND_RESULT res rid, s') \<and>
      res_nodeId res = Fin 2 \<and> deref s' (ws_zwaveClient s') = Some c' \<and> 1 \<le> k \<and>
      numericManufacturerId ev (getfield data ''manufacturerId'') = Inr mid \<and>
      sent c' = sent c @ replicate k (2, mid, p)"
proof -
  from hexTo32ByteBuffer_Inr [OF assms(5)] have h: "h \<noteq> []" and p: "length p = 32" by simp_all
  have nid: "numericNodeId ev (getfield data ''nodeId'') = Inr (Fin 2)"
    by (rule numericNodeId_default [OF assms(6,7,8)])
  have id2: "node_id node = 2"
    using nodes_get_id [of "nodes c" 2 node] assms(11) by simp
  from assms(9) obtain mid where mid: "numericManufacturerId ev (getfield data ''manufacturerId'') = Inr mid"
    using numericManufacturerId_converts by blast
  from assms(10) obtain cnt where cnt: "numericCount ev (getfield data ''count'') = Inr cnt"
    unfolding numericCount_def using integer_or_converts by blast
  have cn: "cnt \<noteq> NaN" using numericCount_not_NaN [of ev "getfield data ''count''"] cnt by auto
  from sender_succeeds [OF assms(2,3) p assms(11,12,13,14) cn, of mid]
  obtain k :: rat and res c' where k: "1 \<le> nat \<lceil>k\<rceil>"
    and r: "sendManufacturerProprietaryCustom ev c (Some (Fin 2)) p (Some mid) (Some cnt) = (Inr res, c')"
      "res_nodeId res = Fin 2" "sent c' = sent c @ replicate (nat \<lceil>k\<rceil>) (node_id node, mid, p)"
    by blast
  have "handleSendCommand ev s data rid = (COMMAND_RESULT res rid, store s (ws_zwaveClient s) c')"
    using assms(1,3,4,5) h r(1) by (simp add: handleSendCommand_def Let_def nid mid cnt)
  moreover have "deref (store s (ws_zwaveClient s) c') (ws_zwaveClient (store s (ws_zwaveClient s) c')) = Some c'"
    by (simp add: ws_zwaveClient_store deref_store [OF assms(1)])
  moreover have "sent c' = sent c @ replicate (nat \<lceil>k\<rceil>) (2, mid, p)"
    using r(3) id2 by simp
  ultimately show ?thesis using k r(2) mid by blast
qed

theorem nodeId_defaults_to_2_witness:
  "(\<exists>res s'. handleSendCommand example_env ready_system
        (JObj [(''type'', JStr ''SEND_COMMAND''), (''payloadHex'', JStr example_payloadHex)]) (JStr ''req-3'') =
        (COMMAND_RESULT res (JStr ''req-3''), s') \<and> res_nodeId res = Fin 2) \<and>
   fst (handleSendCommand example_env ready_system
      (JObj [(''type'', JStr ''SEND_COMMAND''), (''payloadHex'', JStr example_payloadHex)]) (JStr ''req-3'')) =
     COMMAND_RESULT
       \<lparr>res_nodeId = Fin 2, res_count = Fin 1, res_vendorPayloadHex = example_payloadHex,
        res_manufacturerId = Fin 0, res_results = [(1, JUndefined)]\<rparr> (JStr ''req-3'')"
proof -
  let ?data = "JObj [(''type'', JStr ''SEND_COMMAND''), (''payloadHex'', JStr example_payloadHex)]"
  have a1: "deref ready_system (ws_zwaveClient ready_system) = Some ready_client" by code_simp
  have a2: "driver ready_client" "driverReady ready_client" by (simp_all add: ready_client_def)
  have a4: "getfield ?data ''payloadHex'' = JStr example_payloadHex" by simp
  have a5: "hexTo32ByteBuffer example_payloadHex = Inr example_payload" by code_simp
  have a6: "\<not> isInteger (getfield ?data ''nodeId'')"
    "Number example_env (getfield ?data ''nodeId'') = Inr NaN" "\<not> num_truthy NaN"
    "\<not> toString_throws (getfield ?data ''manufacturerId'')"
    "\<not> toString_throws (getfield ?data ''count'')" by simp_all
  from nodeId_defaults_to_2 [OF a1 a2 a4 a5 a6 _ _ _ example_env_sends, of _ "JStr ''req-3''"]
    ready_client_node
  have 1: "\<exists>res s'. handleSendCommand example_env ready_system ?data (JStr ''req-3'') =
      (COMMAND_RESULT res (JStr ''req-3''), s') \<and> res_nodeId res = Fin 2"
    by blast
  have 2: "fst (handleSendCommand example_env ready_system ?data (JStr ''req-3'')) =
     COMMAND_RESULT
       \<lparr>res_nodeId = Fin 2, res_count = Fin 1, res_vendorPayloadHex = example_payloadHex,
        res_manufacturerId = Fin 0, res_results = [(1, JUndefined)]\<rparr> (JStr ''req-3'')"
    by code_simp
  from 1 2 show ?thesis by (rule conjI)
qed

text \<open>
  C10 as stated fails for the integer 0, which does not convert to a non-zero number:
  it is kept as the target, no device has that number, and the request is answered with
  the error that node 0 was not found; nothing is sent to device 2.
\<close>

theorem nodeId_zero_counterexample:
  "Number example_env (JNum (Fin 0)) = Inr (Fin 0) \<and> \<not> num_truthy (Fin 0) \<and>
   numericNodeId example_env (JNum (Fin 0)) = Inr (Fin 0) \<and>
   handleSendCommand example_env ready_system
      (JObj [(''type'', JStr ''SEND_COMMAND''), (''payloadHex'', JStr example_payloadHex),
             (''nodeId'', JNum (Fin 0))]) (JStr ''req-3'') =
     (ERROR (NodeNotFound (Fin 0)) (JStr ''req-3''), ready_system)"
  by code_simp

subsection \<open>Adding provisioning entries\<close>

lemma normalizeDSK_string: "\<exists>d'. normalizeDSK (JStr d) = JStr d'"
  by (simp add: normalizeDSK_def Let_def)

lemma get_after_provision:
  "strict_eq (dsk e) (dsk e) \<Longrightarrow>
   ctrl_getProvisioningEntry (ctrl_provisionSmartStartNode es e) (dsk e) = Some e"
  by (induction es) (auto simp: ctrl_getProvisioningEntry_def)

lemma includes_iff: "arr_includes xs n \<longleftrightarrow> JNum (Fin n) \<in> set xs"
  by (auto simp: arr_includes_def list_ex_iff)

lemma securityClassesArray_cong:
  "securityClasses e' = securityClasses e \<Longrightarrow> s2AccessControl e' = s2AccessControl e \<Longrightarrow>
   s2Authenticated e' = s2Authenticated e \<Longrightarrow> s2Unauthenticated e' = s2Unauthenticated e \<Longrightarrow>
   s0Legacy e' = s0Legacy e \<Longrightarrow> securityClassesArray e' = securityClassesArray e"
  by (simp add: securityClassesArray_def)

lemma toString_throws_normalizeDSK: "toString_throws (normalizeDSK d) = toString_throws d"
  by (cases d) (auto simp: normalizeDSK_def Let_def)

lemma provision_ready:
  assumes "driverReady c" "truthy (dsk e0)" "\<not> toString_throws (dsk e0)"
    and "isNew = (ctrl_getProvisioningEntry (provisioningList c) (normalizeDSK (dsk e0)) = None)"
    and "(if isNew then includesLongRange (supportedProtocols e0) else Inr False) = Inr longRange"
  shows "provisionSmartStartNode c e0 =
     (Inr (stored_entry e0 (isNew \<and> longRange)),
      c\<lparr>provisioningList :=
          ctrl_provisionSmartStartNode (provisioningList c) (stored_entry e0 (isNew \<and> longRange))\<rparr>)"
proof -
  have sc: "securityClassesArray (e0\<lparr>dsk := a, status := b, protocol := p\<rparr>) = securityClassesArray e0"
    for a b p by (rule securityClassesArray_cong) simp_all
  show ?thesis
  proof (cases isNew)
    case True
    with assms(4,5) have n: "ctrl_getProvisioningEntry (provisioningList c) (normalizeDSK (dsk e0)) = None"
      and l: "includesLongRange (supportedProtocols e0) = Inr longRange" by simp_all
    show ?thesis using assms(1,2,3) True
      by (simp add: provisionSmartStartNode_def Let_def n l sc stored_entry_def
          toString_throws_normalizeDSK)
  next
    case False
    with assms(4) have n: "(ctrl_getProvisioningEntry (provisioningList c) (normalizeDSK (dsk e0)) = None) = False"
      by simp
    show ?thesis using assms(1,2,3) False
      by (simp add: provisionSmartStartNode_def Let_def n sc stored_entry_def
          toString_throws_normalizeDSK)
  qed
qed

lemma handleAdd_ready:
  assumes "deref s (ws_zwaveClient s) = Some c" "driverReady c"
    "truthy (getfield (js_or (getfield data ''entry'') data) ''dsk'')"
  shows "handleAddProvisioningEntry s data rid =
     (case provisionSmartStartNode c (provisioningEntry (js_or (getfield data ''entry'') data)) of
        (Inl err, c') \<Rightarrow> (ERROR err rid, store s (ws_zwaveClient s) c')
      | (Inr stored, c') \<Rightarrow> (PROVISIONING_ENTRY_ADDED stored rid, store s (ws_zwaveClient s) c'))"
  using assms by (simp add: handleAddProvisioningEntry_def Let_def)

lemma provisioningEntry_fields:
  "dsk (provisioningEntry e) = getfield e ''dsk''"
  "status (provisioningEntry e) =
     (if getfield e ''status'' \<noteq> JUndefined then getfield e ''status'' else JBool False)"
  "supportedProtocols (provisioningEntry e) = js_or (getfield e ''supportedProtocols'') (JArr [])"
  "s2AccessControl (provisioningEntry e) = flag (getfield e ''s2AccessControl'')"
  "s2Authenticated (provisioningEntry e) = flag (getfield e ''s2Authenticated'')"
  "s2Unauthenticated (provisioningEntry e) = flag (getfield e ''s2Unauthenticated'')"
  "s0Legacy (provisioningEntry e) = flag (getfield e ''s0Legacy'')"
  by (simp_all add: provisioningEntry_def Let_def)

lemma provisioningEntry_securityClasses_obj:
  "getfield e ''securityClasses'' = JObj flags \<Longrightarrow> securityClasses (provisioningEntry e) = JObj flags"
  by (simp add: provisioningEntry_def Let_def)

lemma toString_throws_truthy: "toString_throws v \<Longrightarrow> truthy v"
  by (cases v) auto

lemma store_same: "deref s r = Some c \<Longrightarrow> store s r c = s"
  by (cases r) (auto simp: deref_def store_def split: if_splits)

text \<open>
  A DSK whose conversion to a string throws has the request answered with the error,
  and nothing is stored.
\<close>

lemma handleAdd_dsk_not_convertible:
  assumes "deref s (ws_zwaveClient s) = Some c" and "driverReady c"
    and "toString_throws (getfield (js_or (getfield data ''entry'') data) ''dsk'')"
  shows "handleAddProvisioningEntry s data rid = (ERROR TypeError rid, s)"
proof -
  let ?e = "js_or (getfield data ''entry'') data"
  have t: "truthy (getfield ?e ''dsk'')" by (rule toString_throws_truthy [OF assms(3)])
  have d: "dsk (provisioningEntry ?e) = getfield ?e ''dsk''" by (simp add: provisioningEntry_fields)
  have "provisionSmartStartNode c (provisioningEntry ?e) = (Inl TypeError, c)"
    using assms(2,3) t by (simp add: provisionSmartStartNode_def d toString_throws_normalizeDSK Let_def)
  then show ?thesis
    by (simp add: handleAdd_ready [OF assms(1,2) t] store_same [OF assms(1)])
qed

lemma handleAdd_stores:
  assumes "deref s (ws_zwaveClient s) = Some c" "driverReady c"
    and "e = js_or (getfield data ''entry'') data"
    and "truthy (getfield e ''dsk'')" "\<not> toString_throws (getfield e ''dsk'')"
    and "isNew = (ctrl_getProvisioningEntry (provisioningList c) (normalizeDSK (getfield e ''dsk'')) = None)"
    and "(if isNew then includesLongRange (js_or (getfield e ''supportedProtocols'') (JArr [])) else Inr False)
           = Inr longRange"
  shows "handleAddProvisioningEntry s data rid =
     (PROVISIONING_ENTRY_ADDED (stored_entry (provisioningEntry e) (isNew \<and> longRange)) rid,
      store s (ws_zwaveClient s)
        (c\<lparr>provisioningList := ctrl_provisionSmartStartNode (provisioningList c)
              (stored_entry (provisioningEntry e) (isNew \<and> longRange))\<rparr>))"
proof -
  let ?e0 = "provisioningEntry e"
  have t: "truthy (dsk ?e0)" using assms(4) by (simp add: provisioningEntry_fields)
  have nt: "\<not> toString_throws (dsk ?e0)" using assms(5) by (simp add: provisioningEntry_fields)
  have n: "isNew = (ctrl_getProvisioningEntry (provisioningList c) (normalizeDSK (dsk ?e0)) = None)"
    using assms(6) by (simp add: provisioningEntry_fields)
  have l: "(if isNew then includesLongRange (supportedProtocols ?e0) else Inr False) = Inr longRange"
    using assms(7) by (simp add: provisioningEntry_fields split: if_splits)
  have tr: "truthy (getfield (js_or (getfield data ''entry'') data) ''dsk'')"
    using assms(3,4) by simp
  show ?thesis
    by (simp add: handleAdd_ready [OF assms(1,2) tr] assms(3) [symmetric]
        provision_ready [OF assms(2) t nt n l])
qed

lemma stored_entry_fields:
  "dsk (stored_entry e0 f) = normalizeDSK (dsk e0)"
  "status (stored_entry e0 f) =
     (if f then Inactive
      else if strict_eq (status e0) (JBool True) \<or> strict_eq (status e0) (JStr ''active'')
      then Active else Inactive)"
  "securityClasses (stored_entry e0 f) = JArr (securityClassesArray e0)"
  by (simp_all add: stored_entry_def)

lemma handleAdd_stored_found:
  assumes "deref s (ws_zwaveClient s) = Some c" "driverReady c"
    and "e = js_or (getfield data ''entry'') data"
    and "getfield e ''dsk'' = JStr d" "d \<noteq> []"
    and "isNew = (ctrl_getProvisioningEntry (provisioningList c) (normalizeDSK (JStr d)) = None)"
    and "(if isNew then includesLongRange (js_or (getfield e ''supportedProtocols'') (JArr [])) else Inr False)
           = Inr longRange"
  shows "\<exists>stored s' c'. handleAddProvisioningEntry s data rid = (PROVISIONING_ENTRY_ADDED stored rid, s') \<and>
     status stored =
       (if isNew \<and> longRange then Inactive
        else if strict_eq (getfield e ''status'') (JBool True) \<or> strict_eq (getfield e ''status'') (JStr ''active'')
        then Active else Inactive) \<and>
     deref s' (ws_zwaveClient s') = Some c' \<and> driverReady c' \<and>
     ctrl_getProvisioningEntry (provisioningList c') (normalizeDSK (JStr d)) = Some stored"
proof -
  let ?st = "stored_entry (provisioningEntry e) (isNew \<and> longRange)"
  let ?c' = "c\<lparr>provisioningList := ctrl_provisionSmartStartNode (provisioningList c) ?st\<rparr>"
  have t: "truthy (getfield e ''dsk'')" using assms(4,5) by simp
  have nt: "\<not> toString_throws (getfield e ''dsk'')" using assms(4) by simp
  have n: "isNew = (ctrl_getProvisioningEntry (provisioningList c) (normalizeDSK (getfield e ''dsk'')) = None)"
    using assms(6) by (simp add: assms(4))
  note h = handleAdd_stores [OF assms(1,2,3) t nt n assms(7), of rid]
  obtain d' where d': "normalizeDSK (JStr d) = JStr d'" using normalizeDSK_string by blast
  have k: "dsk ?st = JStr d'"
    by (simp add: stored_entry_fields provisioningEntry_fields assms(4) d')
  have g: "ctrl_getProvisioningEntry (provisioningList ?c') (normalizeDSK (JStr d)) = Some ?st"
    using get_after_provision [of ?st "provisioningList c"] by (simp add: k d')
  have st: "status ?st =
       (if isNew \<and> longRange then Inactive
        else if strict_eq (getfield e ''status'') (JBool True) \<or> strict_eq (getfield e ''status'') (JStr ''active'')
        then Active else Inactive)"
    by (simp add: stored_entry_fields provisioningEntry_fields)
  have dr: "deref (store s (ws_zwaveClient s) ?c') (ws_zwaveClient (store s (ws_zwaveClient s) ?c')) = Some ?c'"
    by (simp add: ws_zwaveClient_store deref_store [OF assms(1)])
  have rd: "driverReady ?c'" using assms(2) by simp
  from h st dr rd g show ?thesis by blast
qed

text \<open>
  C2. For a request to add an entry with a DSK, the driver ready: when the store has
  no entry for the normalised DSK and the request lists Long Range among
  \<^verbatim>\<open>supportedProtocols\<close>, the entry is stored inactive whatever \<^verbatim>\<open>status\<close> the request
  asks for; when the request asks for \<^verbatim>\<open>status: true\<close> and the entry exists already, or
  the request does not list Long Range, the entry is stored active. The request's field
  is \<^verbatim>\<open>status\<close>; the store holds the entry under its normalised DSK afterwards.
\<close>

theorem long_range_entry_added_inactive:
  assumes "deref s (ws_zwaveClient s) = Some c" and "driverReady c"
    and "e = js_or (getfield data ''entry'') data"
    and "getfield e ''dsk'' = JStr d" and "d \<noteq> []"
  shows
   "(ctrl_getProvisioningEntry (provisioningList c) (normalizeDSK (JStr d)) = None \<and>
     getfield e ''supportedProtocols'' = JArr ps \<and> ZWaveLongRange \<in> set ps \<longrightarrow>
       (\<exists>stored s' c'. handleAddProvisioningEntry s data rid = (PROVISIONING_ENTRY_ADDED stored rid, s') \<and>
          status stored = Inactive \<and> deref s' (ws_zwaveClient s') = Some c' \<and> driverReady c' \<and>
          ctrl_getProvisioningEntry (provisioningList c') (normalizeDSK (JStr d)) = Some stored)) \<and>
    (getfield e ''status'' = JBool True \<and>
     (ctrl_getProvisioningEntry (provisioningList c) (normalizeDSK (JStr d)) \<noteq> None \<or>
      getfield e ''supportedProtocols'' = JArr ps \<and> ZWaveLongRange \<notin> set ps \<or>
      getfield e ''supportedProtocols'' = JUndefined) \<longrightarrow>
       (\<exists>stored s' c'. handleAddProvisioningEntry s data rid = (PROVISIONING_ENTRY_ADDED stored rid, s') \<and>
          status stored = Active \<and> deref s' (ws_zwaveClient s') = Some c' \<and> driverReady c' \<and>
          ctrl_getProvisioningEntry (provisioningList c') (normalizeDSK (JStr d)) = Some stored))"
proof (rule conjI; rule impI)
  assume a: "ctrl_getProvisioningEntry (provisioningList c) (normalizeDSK (JStr d)) = None \<and>
     getfield e ''supportedProtocols'' = JArr ps \<and> ZWaveLongRange \<in> set ps"
  then have l: "(if True then includesLongRange (js_or (getfield e ''supportedProtocols'') (JArr [])) else Inr False)
      = Inr True"
    by (simp add: js_or_def includes_iff ZWaveLongRange_def)
  from a have n: "True = (ctrl_getProvisioningEntry (provisioningList c) (normalizeDSK (JStr d)) = None)"
    by simp
  from handleAdd_stored_found [OF assms n l, of rid]
  show "\<exists>stored s' c'. handleAddProvisioningEntry s data rid = (PROVISIONING_ENTRY_ADDED stored rid, s') \<and>
          status stored = Inactive \<and> deref s' (ws_zwaveClient s') = Some c' \<and> driverReady c' \<and>
          ctrl_getProvisioningEntry (provisioningList c') (normalizeDSK (JStr d)) = Some stored"
    by simp
next
  assume a: "getfield e ''status'' = JBool True \<and>
     (ctrl_getProvisioningEntry (provisioningList c) (normalizeDSK (JStr d)) \<noteq> None \<or>
      getfield e ''supportedProtocols'' = JArr ps \<and> ZWaveLongRange \<notin> set ps \<or>
      getfield e ''supportedProtocols'' = JUndefined)"
  let ?new = "ctrl_getProvisioningEntry (provisioningList c) (normalizeDSK (JStr d)) = None"
  from a have l: "(if ?new then includesLongRange (js_or (getfield e ''supportedProtocols'') (JArr [])) else Inr False)
      = Inr False"
    by (auto simp: js_or_def includes_iff ZWaveLongRange_def arr_includes_def)
  from handleAdd_stored_found [OF assms refl l, of rid] a
  show "\<exists>stored s' c'. handleAddProvisioningEntry s data rid = (PROVISIONING_ENTRY_ADDED stored rid, s') \<and>
          status stored = Active \<and> deref s' (ws_zwaveClient s') = Some c' \<and> driverReady c' \<and>
          ctrl_getProvisioningEntry (provisioningList c') (normalizeDSK (JStr d)) = Some stored"
    by simp
qed

theorem long_range_entry_added_inactive_witness:
  "(\<exists>stored s'. handleAddProvisioningEntry ready_system long_range_request (JStr ''req-4'') =
        (PROVISIONING_ENTRY_ADDED stored (JStr ''req-4''), s') \<and> status stored = Inactive) \<and>
   (\<exists>stored s'. handleAddProvisioningEntry
        (snd (handleAddProvisioningEntry ready_system long_range_request (JStr ''req-4'')))
        standard_request (JStr ''req-5'') =
        (PROVISIONING_ENTRY_ADDED stored (JStr ''req-5''), s') \<and> status stored = Active)"
proof -
  let ?s1 = "snd (handleAddProvisioningEntry ready_system long_range_request (JStr ''req-4''))"
  let ?k = "normalizeDSK (JStr example_dsk)"
  have a1: "deref ready_system (ws_zwaveClient ready_system) = Some ready_client" by code_simp
  have a2: "driverReady ready_client" by (simp add: ready_client_def)
  have d: "example_dsk \<noteq> []" by (simp add: example_dsk_def)
  have e1: "getfield (js_or (getfield long_range_request ''entry'') long_range_request) ''dsk'' = JStr example_dsk"
    by (simp add: long_range_request_def js_or_def)
  have h1: "ctrl_getProvisioningEntry (provisioningList ready_client) ?k = None \<and>
      getfield (js_or (getfield long_range_request ''entry'') long_range_request) ''supportedProtocols'' =
        JArr [ZWave, ZWaveLongRange] \<and> ZWaveLongRange \<in> set [ZWave, ZWaveLongRange]"
    by (simp add: long_range_request_def js_or_def ready_client_def ctrl_getProvisioningEntry_def)
  from long_range_entry_added_inactive [OF a1 a2 refl e1 d, of "[ZWave, ZWaveLongRange]" "JStr ''req-4''"] h1
  have 1: "\<exists>stored s'. handleAddProvisioningEntry ready_system long_range_request (JStr ''req-4'') =
        (PROVISIONING_ENTRY_ADDED stored (JStr ''req-4''), s') \<and> status stored = Inactive"
    by blast
  have b1: "deref ?s1 (ws_zwaveClient ?s1) = Some (heap ?s1 ! 0)" by code_simp
  have b2: "driverReady (heap ?s1 ! 0)" by code_simp
  have e2: "getfield (js_or (getfield standard_request ''entry'') standard_request) ''dsk'' = JStr example_dsk"
    by (simp add: standard_request_def js_or_def)
  have ex: "ctrl_getProvisioningEntry (provisioningList (heap ?s1 ! 0)) ?k \<noteq> None" by code_simp
  have h2: "getfield (js_or (getfield standard_request ''entry'') standard_request) ''status'' = JBool True"
    by (simp add: standard_request_def js_or_def)
  from long_range_entry_added_inactive [OF b1 b2 refl e2 d, of "[]" "JStr ''req-5''"] ex h2
  have 2: "\<exists>stored s'. handleAddProvisioningEntry ?s1 standard_request (JStr ''req-5'') =
        (PROVISIONING_ENTRY_ADDED stored (JStr ''req-5''), s') \<and> status stored = Active"
    by blast
  from 1 2 show ?thesis by (rule conjI)
qed

lemma set_push_new: "set (push_new c xs) = insert (JNum (Fin c)) (set xs)"
  by (auto simp: push_new_def includes_iff)

lemma distinct_push_new: "distinct xs \<Longrightarrow> distinct (push_new c xs)"
  by (auto simp: push_new_def includes_iff)

lemma asserted_flag: "asserted (flag v) = asserted v"
  by (simp add: flag_def asserted_def)

lemma from_securityClasses_obj:
  "set (from_securityClasses (JObj flags)) =
     (if asserted (getfield (JObj flags) ''s2AccessControl'') then {JNum (Fin 2)} else {}) \<union>
     (if asserted (getfield (JObj flags) ''s2Authenticated'') then {JNum (Fin 1)} else {}) \<union>
     (if asserted (getfield (JObj flags) ''s2Unauthenticated'') then {JNum (Fin 0)} else {}) \<union>
     (if asserted (getfield (JObj flags) ''s0Legacy'') then {JNum (Fin 7)} else {})"
  "distinct (from_securityClasses (JObj flags))"
  by (auto simp: from_securityClasses_def)

lemma securityClassesArray_obj:
  assumes "securityClasses e = JObj flags"
  shows "set (securityClassesArray e) =
     (if asserted (getfield (JObj flags) ''s2AccessControl'') \<or> asserted (s2AccessControl e)
      then {JNum (Fin 2)} else {}) \<union>
     (if asserted (getfield (JObj flags) ''s2Authenticated'') \<or> asserted (s2Authenticated e)
      then {JNum (Fin 1)} else {}) \<union>
     (if asserted (getfield (JObj flags) ''s2Unauthenticated'') \<or> asserted (s2Unauthenticated e)
      then {JNum (Fin 0)} else {}) \<union>
     (if asserted (getfield (JObj flags) ''s0Legacy'') \<or> asserted (s0Legacy e)
      then {JNum (Fin 7)} else {})"
    and "distinct (securityClassesArray e)"
proof -
  show "distinct (securityClassesArray e)"
    by (simp add: securityClassesArray_def Let_def assms from_securityClasses_obj(2) distinct_push_new)
  show "set (securityClassesArray e) =
     (if asserted (getfield (JObj flags) ''s2AccessControl'') \<or> asserted (s2AccessControl e)
      then {JNum (Fin 2)} else {}) \<union>
     (if asserted (getfield (JObj flags) ''s2Authenticated'') \<or> asserted (s2Authenticated e)
      then {JNum (Fin 1)} else {}) \<union>
     (if asserted (getfield (JObj flags) ''s2Unauthenticated'') \<or> asserted (s2Unauthenticated e)
      then {JNum (Fin 0)} else {}) \<union>
     (if asserted (getfield (JObj flags) ''s0Legacy'') \<or> asserted (s0Legacy e)
      then {JNum (Fin 7)} else {})"
    unfolding securityClassesArray_def Let_def assms
    by (simp add: set_push_new from_securityClasses_obj(1) del: getfield.simps) blast
qed

text \<open>
  C3. For a request to add an entry whose DSK is a string (not empty), the driver
  ready, that gives the security classes as an object and as single flags: the entry
  is stored, and its set of classes holds a class exactly when the object or the flag
  asserts it (with \<^verbatim>\<open>true\<close> or \<^verbatim>\<open>"true"\<close>), each class once, and nothing else. (A
  request that is answered with an error stores nothing: lemma
  \<open>handleAdd_dsk_not_convertible\<close> for a DSK that does not convert to a string.)
\<close>

theorem security_classes_union:
  assumes "deref s (ws_zwaveClient s) = Some c" and "driverReady c"
    and "e = js_or (getfield data ''entry'') data"
    and "getfield e ''dsk'' = JStr d" and "d \<noteq> []"
    and "getfield e ''securityClasses'' = JObj flags"
    and "includesLongRange (js_or (getfield e ''supportedProtocols'') (JArr [])) = Inr lr"
  shows "\<exists>stored s' cs. handleAddProvisioningEntry s data rid = (PROVISIONING_ENTRY_ADDED stored rid, s') \<and>
     securityClasses stored = JArr cs \<and> distinct cs \<and>
     (\<forall>x. x \<in> set cs \<longleftrightarrow>
        x = JNum (Fin 2) \<and>
          (asserted (getfield (JObj flags) ''s2AccessControl'') \<or> asserted (getfield e ''s2AccessControl'')) \<or>
        x = JNum (Fin 1) \<and>
          (asserted (getfield (JObj flags) ''s2Authenticated'') \<or> asserted (getfield e ''s2Authenticated'')) \<or>
        x = JNum (Fin 0) \<and>
          (asserted (getfield (JObj flags) ''s2Unauthenticated'') \<or> asserted (getfield e ''s2Unauthenticated'')) \<or>
        x = JNum (Fin 7) \<and>
          (asserted (getfield (JObj flags) ''s0Legacy'') \<or> asserted (getfield e ''s0Legacy'')))"
proof -
  let ?new = "ctrl_getProvisioningEntry (provisioningList c) (normalizeDSK (getfield e ''dsk'')) = None"
  let ?e0 = "provisioningEntry e"
  have l: "(if ?new then includesLongRange (js_or (getfield e ''supportedProtocols'') (JArr [])) else Inr False)
      = Inr (?new \<and> lr)"
    by (simp add: assms(7))
  have t: "truthy (getfield e ''dsk'')" using assms(4,5) by simp
  have nt: "\<not> toString_throws (getfield e ''dsk'')" using assms(4) by simp
  note h = handleAdd_stores [OF assms(1,2,3) t nt refl l, of rid]
  have sc: "securityClasses ?e0 = JObj flags"
    by (rule provisioningEntry_securityClasses_obj [OF assms(6)])
  note m = securityClassesArray_obj [OF sc]
  let ?st = "stored_entry ?e0 (?new \<and> ?new \<and> lr)"
  have 1: "securityClasses ?st = JArr (securityClassesArray ?e0)" by (simp add: stored_entry_fields)
  have 2: "\<forall>x. x \<in> set (securityClassesArray ?e0) \<longleftrightarrow>
        x = JNum (Fin 2) \<and>
          (asserted (getfield (JObj flags) ''s2AccessControl'') \<or> asserted (getfield e ''s2AccessControl'')) \<or>
        x = JNum (Fin 1) \<and>
          (asserted (getfield (JObj flags) ''s2Authenticated'') \<or> asserted (getfield e ''s2Authenticated'')) \<or>
        x = JNum (Fin 0) \<and>
          (asserted (getfield (JObj flags) ''s2Unauthenticated'') \<or> asserted (getfield e ''s2Unauthenticated'')) \<or>
        x = JNum (Fin 7) \<and>
          (asserted (getfield (JObj flags) ''s0Legacy'') \<or> asserted (getfield e ''s0Legacy''))"
    unfolding m(1) by (auto simp: provisioningEntry_fields asserted_flag simp del: getfield.simps)
  from h 1 2 m(2) show ?thesis by blast
qed

theorem security_classes_union_witness:
  "(\<exists>stored s' cs. handleAddProvisioningEntry ready_system classes_request (JStr ''req-6'') =
        (PROVISIONING_ENTRY_ADDED stored (JStr ''req-6''), s') \<and>
      securityClasses stored = JArr cs \<and>
      JNum (Fin 2) \<in> set cs \<and> JNum (Fin 7) \<in> set cs \<and> JNum (Fin 1) \<notin> set cs \<and> JNum (Fin 0) \<notin> set cs) \<and>
   (case fst (handleAddProvisioningEntry ready_system classes_request (JStr ''req-6'')) of
      PROVISIONING_ENTRY_ADDED stored r \<Rightarrow> securityClasses stored
    | _ \<Rightarrow> JUndefined) = JArr [JNum (Fin 7), JNum (Fin 2)]"
proof -
  let ?e = "js_or (getfield classes_request ''entry'') classes_request"
  have a1: "deref ready_system (ws_zwaveClient ready_system) = Some ready_client" by code_simp
  have a2: "driverReady ready_client" by (simp add: ready_client_def)
  have e: "?e = classes_request" by (simp add: classes_request_def js_or_def)
  have a4: "getfield ?e ''dsk'' = JStr example_dsk" unfolding e by (simp add: classes_request_def)
  have d: "example_dsk \<noteq> []" by (simp add: example_dsk_def)
  have a5: "getfield ?e ''securityClasses'' =
      JObj [(''s2AccessControl'', JBool False), (''s0Legacy'', JStr ''true'')]"
    unfolding e by (simp add: classes_request_def)
  have a6: "includesLongRange (js_or (getfield ?e ''supportedProtocols'') (JArr [])) = Inr False"
    unfolding e by (simp add: classes_request_def js_or_def arr_includes_def)
  from security_classes_union [OF a1 a2 refl a4 d a5 a6, of "JStr ''req-6''"]
  obtain stored s' cs where r:
    "handleAddProvisioningEntry ready_system classes_request (JStr ''req-6'') =
        (PROVISIONING_ENTRY_ADDED stored (JStr ''req-6''), s')"
    "securityClasses stored = JArr cs"
    and m: "\<forall>x. x \<in> set cs \<longleftrightarrow>
        x = JNum (Fin 2) \<and>
          (asserted (getfield (JObj [(''s2AccessControl'', JBool False), (''s0Legacy'', JStr ''true'')]) ''s2AccessControl'') \<or> asserted (getfield ?e ''s2AccessControl'')) \<or>
        x = JNum (Fin 1) \<and>
          (asserted (getfield (JObj [(''s2AccessControl'', JBool False), (''s0Legacy'', JStr ''true'')]) ''s2Authenticated'') \<or> asserted (getfield ?e ''s2Authenticated'')) \<or>
        x = JNum (Fin 0) \<and>
          (asserted (getfield (JObj [(''s2AccessControl'', JBool False), (''s0Legacy'', JStr ''true'')]) ''s2Unauthenticated'') \<or> asserted (getfield ?e ''s2Unauthenticated'')) \<or>
        x = JNum (Fin 7) \<and>
          (asserted (getfield (JObj [(''s2AccessControl'', JBool False), (''s0Legacy'', JStr ''true'')]) ''s0Legacy'') \<or> asserted (getfield ?e ''s0Legacy''))"
    by blast
  have "JNum (Fin 2) \<in> set cs \<and> JNum (Fin 7) \<in> set cs \<and> JNum (Fin 1) \<notin> set cs \<and> JNum (Fin 0) \<notin> set cs"
    using m by (simp add: classes_request_def asserted_def js_or_def)
  with r have 1: "\<exists>stored s' cs. handleAddProvisioningEntry ready_system classes_request (JStr ''req-6'') =
        (PROVISIONING_ENTRY_ADDED stored (JStr ''req-6''), s') \<and>
      securityClasses stored = JArr cs \<and>
      JNum (Fin 2) \<in> set cs \<and> JNum (Fin 7) \<in> set cs \<and> JNum (Fin 1) \<notin> set cs \<and> JNum (Fin 0) \<notin> set cs"
    by blast
  have 2: "(case fst (handleAddProvisioningEntry ready_system classes_request (JStr ''req-6'')) of
      PROVISIONING_ENTRY_ADDED stored r \<Rightarrow> securityClasses stored
    | _ \<Rightarrow> JUndefined) = JArr [JNum (Fin 7), JNum (Fin 2)]"
    by code_simp
  from 1 2 show ?thesis by (rule conjI)
qed

end
